theory Spec2Isabelle
  imports Main
begin

section \<open>The live-tail stream controller of mqtt-tail (subscriber.js)\<close>

text \<open>
  The controller is the function \<open>connect(topics, opts)\<close> of subscriber.js: a setup
  phase (build the broker URL and the connect options, compile the two filters, call
  \<open>mqttConnect\<close>) followed by event handlers that share four mutable variables.
  The model passes the state explicitly. Everything the controller does to the outside
  (writes to stdout and stderr, calls of the mqtt client, \<open>process.exit\<close>) is recorded in
  the same state record, so that the handlers become functions from state to state and
  an execution is a list of events folded over them.
\<close>

subsection \<open>Options and packets\<close>

text \<open>
  The value under \<open>opts.count\<close>: the number that the option parser of \<open>-n\<close> produced,
  or a text (a config file can hold one). A count that is \<open>undefined\<close> or NaN is \<open>None\<close>
  in the options record below.
\<close>

datatype count = CountNumber int | CountText string

text \<open>
  The value under \<open>opts.port\<close>: a text when it comes from \<open>--port\<close>, a number when it
  comes from the environment or a config file (absent or NaN is \<open>None\<close> below).
\<close>

datatype port = PortNumber int | PortText string

text \<open>
  The merged options object. A field that may be \<open>undefined\<close> is an option.
\<close>

record opts =
  o_verbose :: bool
  o_retained :: "bool option"
  o_count :: "count option"
  o_qos :: "nat option"
  o_filter :: "string option"
  o_payloadFilter :: "string option"
  o_clientId :: "string option"
  o_username :: "string option"
  o_password :: "string option"
  o_host :: "string option"
  o_port :: "port option"
  o_tls :: bool
  o_ca :: "string option"
  o_cert :: "string option"
  o_key :: "string option"

type_synonym buffer = "char list"

record packet =
  p_qos :: nat
  p_retain :: bool

record err =
  e_message :: string
  e_code :: "string option"
  e_errno :: "string option"
  e_stack :: "string option"

text \<open>JavaScript truthiness of a possibly undefined string: defined and not empty.\<close>

definition truthy :: "string option \<Rightarrow> bool" where
  "truthy v = (case v of None \<Rightarrow> False | Some s \<Rightarrow> s \<noteq> [])"

text \<open>\<open>v || d\<close> on such a string.\<close>

definition orElse :: "string option \<Rightarrow> string \<Rightarrow> string" where
  "orElse v d = (case v of None \<Rightarrow> d | Some s \<Rightarrow> if s = [] then d else s)"

text \<open>Falsy counts and ports: the number 0 and the empty text.\<close>

fun falsyCount :: "count \<Rightarrow> bool" where
  "falsyCount (CountNumber n) = (n = 0)"
| "falsyCount (CountText t) = (t = [])"

fun falsyPort :: "port \<Rightarrow> bool" where
  "falsyPort (PortNumber n) = (n = 0)"
| "falsyPort (PortText t) = (t = [])"

subsection \<open>The runtime the controller calls into\<close>

text \<open>
  The regular-expression engine, the file system, the formatter, the decoding of a
  payload buffer to text, the built-in \<open>parseInt\<close> and the random client id are
  collaborators of the controller; they are parameters of the model. \<open>regexp p\<close> is
  \<open>new RegExp(p)\<close>: the compiled matcher (its \<open>test\<close> method; without flags it has no
  state) or the message of the SyntaxError it throws. \<open>readFile p\<close> is the file's content
  or the message of the rejection. \<open>parseInt v\<close> is \<open>parseInt(v, 10)\<close>, with \<open>None\<close> for
  NaN: it prints a number before it reads it, which gives the number back only while
  the number prints without an exponent (below \<open>10^21\<close>; \<open>1e+21\<close> reads as 1).
\<close>

record runtime =
  regexp :: "string \<Rightarrow> string + (string \<Rightarrow> bool)"
  readFile :: "string \<Rightarrow> string + buffer"
  formatMessage :: "string \<Rightarrow> buffer \<Rightarrow> packet \<Rightarrow> opts \<Rightarrow> string"
  toString :: "buffer \<Rightarrow> string"
  parseInt :: "count \<Rightarrow> int option"
  randomId :: string

subsection \<open>Output and process state\<close>

datatype channel = Stdout | Stderr

datatype stage = RetainedDrop | TopicFilter | PayloadFilter

text \<open>
  What a debug line says. The interpolated values that no handler reads back are left
  out; a line is identified by its call site.
\<close>

datatype debug =
    DbgNote string
  | DbgConnectEvent
  | DbgSubscribing "string list"
  | DbgSubscribed string nat
  | DbgReconnect nat
  | DbgClose
  | DbgDisconnectPacket
  | DbgOffline
  | DbgMessage string nat nat bool
  | DbgDropped stage
  | DbgPrinted nat
  | DbgLimit int
  | DbgShutdown

text \<open>
  The broker URL \<open>protocol://host:port\<close>, kept as its three parts; the port is the
  value that is printed into it.
\<close>

datatype url = Url string string port

text \<open>
  Every text the controller writes, one constructor per \<open>write\<close> call of the source
  (the chalk colouring is not modelled). \<open>MessageOut\<close> is the only one that carries the
  formatter's rendering of a message.
\<close>

datatype line =
    MessageOut string
  | Debug debug
  | Connecting url "string option"
  | Connected url
  | Reconnected url
  | SubscribeError string
  | Watching string nat
  | Blank
  | ErrorLine string "string option" "string option"
  | ErrorStack string
  | LostConnection url
  | CannotReach url
  | InvalidRegex string string string
  | Disconnecting

datatype error = ReadFileError string string

text \<open>
  How the process ended: \<open>process.exit(code)\<close>, or a rejection of \<open>connect\<close> that
  nothing catches (index.js awaits \<open>connect\<close> at top level without a handler).
\<close>

datatype halt = Exit nat | Uncaught error

text \<open>
  The exit code seen from outside. For the uncaught rejection it is Node that ends the
  process: it prints the rejection on stderr and exits with code 1. That report is not a
  write of the controller and is not part of the output trace below.
\<close>

fun exitCode :: "halt \<Rightarrow> nat" where
  "exitCode (Exit code) = code"
| "exitCode (Uncaught e) = 1"

text \<open>
  The four variables shared by the handlers (\<open>messageCount\<close>, \<open>reconnectCount\<close>,
  \<open>everConnected\<close>, \<open>offlineShown\<close>) and the trace of external effects: the writes in
  order, the number of calls of \<open>mqttConnect\<close>, \<open>client.subscribe\<close> and \<open>client.end\<close>,
  the number of subscribe callbacks that have run, and whether the process has ended.
\<close>

record sys =
  out :: "(channel \<times> line) list"
  mqttConnects :: nat
  subscribeCalls :: nat
  subscribeAcks :: nat
  endCalls :: nat
  halted :: "halt option"
  messageCount :: nat
  reconnectCount :: nat
  everConnected :: bool
  offlineShown :: bool

definition boot :: sys where
  "boot = \<lparr>out = [], mqttConnects = 0, subscribeCalls = 0, subscribeAcks = 0, endCalls = 0,
           halted = None, messageCount = 0, reconnectCount = 0, everConnected = False,
           offlineShown = False\<rparr>"

definition emit :: "channel \<Rightarrow> line \<Rightarrow> sys \<Rightarrow> sys" where
  "emit ch t s = s\<lparr>out := out s @ [(ch, t)]\<rparr>"

definition exit :: "nat \<Rightarrow> sys \<Rightarrow> sys" where
  "exit code s = s\<lparr>halted := Some (Exit code)\<rparr>"

text \<open>\<open>dbg(opts, msg)\<close>: a line on stderr when \<open>opts.verbose\<close>.\<close>

definition dbg :: "opts \<Rightarrow> debug \<Rightarrow> sys \<Rightarrow> sys" where
  "dbg op m s = (if o_verbose op then emit Stderr (Debug m) s else s)"

subsection \<open>Builders\<close>

record connectOpts =
  clientId :: string
  clean :: bool
  reconnectPeriod :: nat
  connectTimeout :: nat
  username :: "string option"
  password :: "string option"
  rejectUnauthorized :: bool
  ca :: "buffer option"
  cert :: "buffer option"
  key :: "buffer option"

definition usesTls :: "opts \<Rightarrow> bool" where
  "usesTls op = (o_tls op \<or> truthy (o_ca op) \<or> truthy (o_cert op) \<or> truthy (o_key op))"

text \<open>\<open>if (opts.x) connectOpts.x = await readFile(opts.x)\<close>: a rejection leaves the function.\<close>

definition readMaterial :: "runtime \<Rightarrow> string option \<Rightarrow> error + buffer option" where
  "readMaterial rt p =
     (case p of
        None \<Rightarrow> Inr None
      | Some path \<Rightarrow>
          if path = [] then Inr None
          else (case readFile rt path of
                  Inl m \<Rightarrow> Inl (ReadFileError path m)
                | Inr b \<Rightarrow> Inr (Some b)))"

definition buildConnectOptions :: "runtime \<Rightarrow> opts \<Rightarrow> error + connectOpts" where
  "buildConnectOptions rt op =
     (let base = \<lparr>clientId = orElse (o_clientId op) (''mqtt-tail-'' @ randomId rt),
                   clean = True, reconnectPeriod = 2000, connectTimeout = 10000,
                   username = (if truthy (o_username op) then o_username op else None),
                   password = (if truthy (o_password op) then o_password op else None),
                   rejectUnauthorized = False, ca = None, cert = None, key = None\<rparr>
      in if usesTls op then
           (case readMaterial rt (o_ca op) of
              Inl e \<Rightarrow> Inl e
            | Inr a \<Rightarrow>
               (case readMaterial rt (o_cert op) of
                  Inl e \<Rightarrow> Inl e
                | Inr c \<Rightarrow>
                   (case readMaterial rt (o_key op) of
                      Inl e \<Rightarrow> Inl e
                    | Inr k \<Rightarrow>
                        Inr (base\<lparr>rejectUnauthorized := True, ca := a, cert := c, key := k\<rparr>))))
         else Inr base)"

definition buildBrokerUrl :: "opts \<Rightarrow> url" where
  "buildBrokerUrl op =
     (let tls = usesTls op;
          host = orElse (o_host op) ''localhost'';
          port = (case o_port op of
                    None \<Rightarrow> PortNumber (if tls then 8883 else 1883)
                  | Some p \<Rightarrow> if falsyPort p then PortNumber (if tls then 8883 else 1883) else p)
      in Url (if tls then ''mqtts'' else ''mqtt'') host port)"

text \<open>
  \<open>compileFilter(pattern, label)\<close>: no matcher for a falsy pattern; otherwise the compiled
  matcher, or, when the pattern does not compile, one line on stderr and
  \<open>process.exit(1)\<close>.
\<close>

definition compileFilter ::
  "runtime \<Rightarrow> string option \<Rightarrow> string \<Rightarrow> sys \<Rightarrow> (string \<Rightarrow> bool) option \<times> sys" where
  "compileFilter rt pattern label s =
     (case pattern of
        None \<Rightarrow> (None, s)
      | Some p \<Rightarrow>
          if p = [] then (None, s)
          else (case regexp rt p of
                  Inr re \<Rightarrow> (Some re, s)
                | Inl m \<Rightarrow> (None, exit 1 (emit Stderr (InvalidRegex label p m) s))))"

subsection \<open>The setup phase of connect\<close>

datatype limit = Finite int | Infinity | NotANumber

text \<open>
  \<open>opts.count ? parseInt(opts.count, 10) : Infinity\<close>: a falsy count (absent, NaN, the
  number 0, the empty text) gives \<open>Infinity\<close>; any other count is handed to \<open>parseInt\<close>.
\<close>

definition maxMessagesOf :: "runtime \<Rightarrow> opts \<Rightarrow> limit" where
  "maxMessagesOf rt op =
     (case o_count op of
        None \<Rightarrow> Infinity
      | Some v \<Rightarrow>
          if falsyCount v then Infinity
          else (case parseInt rt v of None \<Rightarrow> NotANumber | Some n \<Rightarrow> Finite n))"

text \<open>\<open>messageCount >= maxMessages\<close>; a comparison with NaN is false.\<close>

fun reached :: "nat \<Rightarrow> limit \<Rightarrow> bool" where
  "reached n (Finite m) = (m \<le> int n)"
| "reached n Infinity = False"
| "reached n NotANumber = False"

text \<open>The constants the handlers close over.\<close>

record ctx =
  c_opts :: opts
  c_topics :: "string list"
  brokerUrl :: url
  c_qos :: nat
  topicFilter :: "(string \<Rightarrow> bool) option"
  payloadFilter :: "(string \<Rightarrow> bool) option"
  maxMessages :: limit

definition setupNotes :: "string list" where
  "setupNotes = [''broker URL'', ''client ID'', ''auth'', ''tls'', ''topics'', ''filters'',
                 ''resolved opts (no password)'', ''calling mqttConnect()...'']"

text \<open>
  Lines 57 to 87 of subscriber.js. The result is the state after setup and, when setup
  came as far as \<open>mqttConnect\<close>, the context of the handlers that are then registered.
\<close>

definition connect :: "runtime \<Rightarrow> string list \<Rightarrow> opts \<Rightarrow> ctx option \<times> sys" where
  "connect rt topics op =
     (let s1 = dbg op (DbgNote ''building broker URL'') boot;
          u = buildBrokerUrl op;
          s2 = dbg op (DbgNote ''building connect options'') s1
      in case buildConnectOptions rt op of
           Inl e \<Rightarrow> (None, s2\<lparr>halted := Some (Uncaught e)\<rparr>)
         | Inr co \<Rightarrow>
            (let q = (case o_qos op of None \<Rightarrow> 0 | Some n \<Rightarrow> n);
                 (tf, s3) = compileFilter rt (o_filter op) ''--filter'' s2
             in if halted s3 \<noteq> None then (None, s3)
                else
                 (let (pf, s4) = compileFilter rt (o_payloadFilter op) ''--payload-filter'' s3
                  in if halted s4 \<noteq> None then (None, s4)
                     else
                      (let c = \<lparr>c_opts = op, c_topics = topics, brokerUrl = u, c_qos = q,
                                topicFilter = tf, payloadFilter = pf,
                                maxMessages = maxMessagesOf rt op\<rparr>;
                           s5 = foldl (\<lambda>s n. dbg op (DbgNote n) s) s4 setupNotes;
                           s6 = emit Stderr (Connecting u (username co)) s5
                       in (Some c, s6\<lparr>mqttConnects := mqttConnects s6 + 1\<rparr>)))))"

subsection \<open>Events and handlers\<close>

datatype signal = SIGINT | SIGTERM

text \<open>
  What the mqtt client and the operating system deliver: the client's events, the
  callback of \<open>client.subscribe\<close> (an error message or the granted list), the callback of
  \<open>client.end\<close>, and the two signals.
\<close>

datatype event =
    EvConnect
  | EvSubscribeCallback "string + (string \<times> nat) list"
  | EvReconnect
  | EvError err
  | EvClose
  | EvDisconnect
  | EvOffline
  | EvMessage string buffer packet
  | EvSignal signal
  | EvEndCallback

text \<open>\<open>client.end(false, {}, () => process.exit(0))\<close>: the request is counted; the callback
  runs when the client delivers it.\<close>

definition clientEnd :: "sys \<Rightarrow> sys" where
  "clientEnd s = s\<lparr>endCalls := endCalls s + 1\<rparr>"

definition onConnect :: "ctx \<Rightarrow> sys \<Rightarrow> sys" where
  "onConnect c s =
     (let s1 = dbg (c_opts c) DbgConnectEvent s;
          s2 = (if everConnected s1 then emit Stderr (Reconnected (brokerUrl c)) s1
                else emit Stderr (Connected (brokerUrl c)) s1);
          s3 = s2\<lparr>everConnected := True, offlineShown := False\<rparr>;
          s4 = dbg (c_opts c) (DbgSubscribing (c_topics c)) s3
      in s4\<lparr>subscribeCalls := subscribeCalls s4 + 1\<rparr>)"

definition onSubscribed :: "ctx \<Rightarrow> string + (string \<times> nat) list \<Rightarrow> sys \<Rightarrow> sys" where
  "onSubscribed c r s =
     (case r of
        Inl m \<Rightarrow> exit 1 (emit Stderr (SubscribeError m) s)
      | Inr granted \<Rightarrow>
          emit Stderr Blank
            (foldl (\<lambda>s' (t, g). emit Stderr (Watching t g) (dbg (c_opts c) (DbgSubscribed t g) s'))
               s granted))"

definition onReconnect :: "ctx \<Rightarrow> sys \<Rightarrow> sys" where
  "onReconnect c s =
     (let s1 = s\<lparr>reconnectCount := reconnectCount s + 1\<rparr>
      in dbg (c_opts c) (DbgReconnect (reconnectCount s1)) s1)"

text \<open>\<open>err.stack.split('\n').slice(1).join('\n')\<close>: the text after the first line break.\<close>

definition dropFirstLine :: "string \<Rightarrow> string" where
  "dropFirstLine t = drop 1 (dropWhile (\<lambda>ch. ch \<noteq> CHR 0x0A) t)"

definition onError :: "ctx \<Rightarrow> err \<Rightarrow> sys \<Rightarrow> sys" where
  "onError c e s =
     (let s1 = emit Stderr
                 (ErrorLine (e_message e)
                    (if truthy (e_code e) then e_code e else None)
                    (if truthy (e_errno e) then e_errno e else None)) s
      in if o_verbose (c_opts c) \<and> truthy (e_stack e)
         then emit Stderr (ErrorStack (dropFirstLine (orElse (e_stack e) []))) s1
         else s1)"

definition onOffline :: "ctx \<Rightarrow> sys \<Rightarrow> sys" where
  "onOffline c s =
     (let s1 = dbg (c_opts c) DbgOffline s
      in if \<not> offlineShown s1 then
           (let s2 = s1\<lparr>offlineShown := True\<rparr>
            in if everConnected s2 then emit Stderr (LostConnection (brokerUrl c)) s2
               else emit Stderr (CannotReach (brokerUrl c)) s2)
         else s1)"

text \<open>The message handler, lines 163 to 189: three early returns, then the forwarding.\<close>

definition onMessage :: "runtime \<Rightarrow> ctx \<Rightarrow> string \<Rightarrow> buffer \<Rightarrow> packet \<Rightarrow> sys \<Rightarrow> sys" where
  "onMessage rt c topic payload pkt s =
     (let op = c_opts c;
          s1 = dbg op (DbgMessage topic (length payload) (p_qos pkt) (p_retain pkt)) s
      in if o_retained op = Some False \<and> p_retain pkt then dbg op (DbgDropped RetainedDrop) s1
         else if (case topicFilter c of None \<Rightarrow> False | Some re \<Rightarrow> \<not> re topic)
         then dbg op (DbgDropped TopicFilter) s1
         else if (case payloadFilter c of None \<Rightarrow> False
                  | Some re \<Rightarrow> \<not> re (toString rt payload))
         then dbg op (DbgDropped PayloadFilter) s1
         else
          (let output = formatMessage rt topic payload pkt op;
               s2 = emit Stdout (MessageOut output) s1;
               s3 = s2\<lparr>messageCount := messageCount s2 + 1\<rparr>;
               s4 = dbg op (DbgPrinted (messageCount s3)) s3
           in if reached (messageCount s4) (maxMessages c)
              then clientEnd
                     (dbg op (DbgLimit (case maxMessages c of Finite m \<Rightarrow> m | _ \<Rightarrow> 0)) s4)
              else s4))"

text \<open>\<open>shutdown\<close>, registered for SIGINT and SIGTERM.\<close>

definition shutdown :: "ctx \<Rightarrow> sys \<Rightarrow> sys" where
  "shutdown c s = clientEnd (emit Stderr Disconnecting (dbg (c_opts c) DbgShutdown s))"

text \<open>
  One event. A process that has ended handles nothing. A callback runs only if the call
  that registered it has been made: the subscribe callback once per \<open>client.subscribe\<close>,
  the end callback (\<open>process.exit(0)\<close>) once \<open>client.end\<close> has been called.
\<close>

definition handle :: "runtime \<Rightarrow> ctx \<Rightarrow> event \<Rightarrow> sys \<Rightarrow> sys" where
  "handle rt c ev s =
     (if halted s \<noteq> None then s
      else (case ev of
              EvConnect \<Rightarrow> onConnect c s
            | EvSubscribeCallback r \<Rightarrow>
                (if subscribeAcks s < subscribeCalls s
                 then onSubscribed c r (s\<lparr>subscribeAcks := subscribeAcks s + 1\<rparr>)
                 else s)
            | EvReconnect \<Rightarrow> onReconnect c s
            | EvError e \<Rightarrow> onError c e s
            | EvClose \<Rightarrow> dbg (c_opts c) DbgClose s
            | EvDisconnect \<Rightarrow> dbg (c_opts c) DbgDisconnectPacket s
            | EvOffline \<Rightarrow> onOffline c s
            | EvMessage topic payload pkt \<Rightarrow> onMessage rt c topic payload pkt s
            | EvSignal sg \<Rightarrow> shutdown c s
            | EvEndCallback \<Rightarrow> (if 0 < endCalls s then exit 0 s else s)))"

text \<open>An execution: the events in delivery order.\<close>

fun run :: "runtime \<Rightarrow> ctx \<Rightarrow> event list \<Rightarrow> sys \<Rightarrow> sys" where
  "run rt c [] s = s"
| "run rt c (ev # evs) s = run rt c evs (handle rt c ev s)"

subsection \<open>Observations on a state\<close>

text \<open>The lines a \<open>dbg\<close> call adds to the output.\<close>

definition dbgl :: "opts \<Rightarrow> debug \<Rightarrow> (channel \<times> line) list" where
  "dbgl op m = (if o_verbose op then [(Stderr, Debug m)] else [])"

text \<open>The lines the loop over the granted subscriptions adds.\<close>

definition watchLines :: "opts \<Rightarrow> (string \<times> nat) list \<Rightarrow> (channel \<times> line) list" where
  "watchLines op granted =
     concat (map (\<lambda>(t, g). dbgl op (DbgSubscribed t g) @ [(Stderr, Watching t g)]) granted)"

text \<open>What has been written to one channel, in order.\<close>

definition written :: "channel \<Rightarrow> sys \<Rightarrow> line list" where
  "written ch s = map snd (filter (\<lambda>w. fst w = ch) (out s))"

subsection \<open>The filter pipeline as the specification words it\<close>

text \<open>
  The specification describes the pipeline as three stages in a fixed order, each of
  which may drop the message, evaluated with short-circuit. \<open>stages\<close> lists the stages
  with their drop conditions in the specification's words, \<open>firstFailing\<close> evaluates such
  a list from the left, and a message is \<open>eligible\<close> when no stage drops it.
\<close>

definition stages ::
  "runtime \<Rightarrow> ctx \<Rightarrow> (stage \<times> (string \<Rightarrow> buffer \<Rightarrow> packet \<Rightarrow> bool)) list" where
  "stages rt c =
     [(RetainedDrop, \<lambda>topic payload pkt. o_retained (c_opts c) = Some False \<and> p_retain pkt),
      (TopicFilter, \<lambda>topic payload pkt.
         (case topicFilter c of None \<Rightarrow> False | Some re \<Rightarrow> \<not> re topic)),
      (PayloadFilter, \<lambda>topic payload pkt.
         (case payloadFilter c of None \<Rightarrow> False | Some re \<Rightarrow> \<not> re (toString rt payload)))]"

fun firstFailing ::
  "(stage \<times> (string \<Rightarrow> buffer \<Rightarrow> packet \<Rightarrow> bool)) list \<Rightarrow> string \<Rightarrow> buffer \<Rightarrow> packet \<Rightarrow> stage option"
  where
  "firstFailing [] topic payload pkt = None"
| "firstFailing ((st, drops) # rest) topic payload pkt =
     (if drops topic payload pkt then Some st else firstFailing rest topic payload pkt)"

definition eligible :: "runtime \<Rightarrow> ctx \<Rightarrow> string \<Rightarrow> buffer \<Rightarrow> packet \<Rightarrow> bool" where
  "eligible rt c topic payload pkt = (firstFailing (stages rt c) topic payload pkt = None)"

subsection \<open>Executions\<close>

text \<open>
  The lines that the eligible messages of an event list are rendered to, in delivery
  order: what a controller that forwards every eligible message writes to stdout.
\<close>

fun eligibleOutput :: "runtime \<Rightarrow> ctx \<Rightarrow> event list \<Rightarrow> line list" where
  "eligibleOutput rt c [] = []"
| "eligibleOutput rt c (EvMessage topic payload pkt # evs) =
     (if eligible rt c topic payload pkt
      then MessageOut (formatMessage rt topic payload pkt (c_opts c)) # eligibleOutput rt c evs
      else eligibleOutput rt c evs)"
| "eligibleOutput rt c (ev # evs) = eligibleOutput rt c evs"

text \<open>
  Events that can end the process or ask for the disconnect on their own: a signal, the
  callback of \<open>client.end\<close>, and a subscribe callback that reports an error. An event list
  without them is \<open>steady\<close>.
\<close>

fun steady :: "event \<Rightarrow> bool" where
  "steady (EvSignal sg) = False"
| "steady EvEndCallback = False"
| "steady (EvSubscribeCallback (Inl m)) = False"
| "steady ev = True"

fun isSignal :: "event \<Rightarrow> bool" where
  "isSignal (EvSignal sg) = True"
| "isSignal ev = False"

fun isConnect :: "event \<Rightarrow> bool" where
  "isConnect EvConnect = True"
| "isConnect ev = False"

text \<open>The kinds of line that claims count.\<close>

fun isOfflineNotice :: "line \<Rightarrow> bool" where
  "isOfflineNotice (LostConnection u) = True"
| "isOfflineNotice (CannotReach u) = True"
| "isOfflineNotice t = False"

fun isConnectNotice :: "line \<Rightarrow> bool" where
  "isConnectNotice (Connected u) = True"
| "isConnectNotice (Reconnected u) = True"
| "isConnectNotice t = False"

fun isDebug :: "line \<Rightarrow> bool" where
  "isDebug (Debug m) = True"
| "isDebug t = False"

fun isMessageOut :: "line \<Rightarrow> bool" where
  "isMessageOut (MessageOut t) = True"
| "isMessageOut t = False"

definition offlineNotices :: "sys \<Rightarrow> (channel \<times> line) list" where
  "offlineNotices s = filter (\<lambda>w. isOfflineNotice (snd w)) (out s)"

definition connectNotices :: "sys \<Rightarrow> (channel \<times> line) list" where
  "connectNotices s = filter (\<lambda>w. isConnectNotice (snd w)) (out s)"

text \<open>Everything written except the debug lines.\<close>

definition statusLines :: "sys \<Rightarrow> (channel \<times> line) list" where
  "statusLines s = filter (\<lambda>w. \<not> isDebug (snd w)) (out s)"

text \<open>
  Channel separation of an output trace: a write goes to stdout exactly when it is the
  rendering of a forwarded message.
\<close>

definition separated :: "(channel \<times> line) list \<Rightarrow> bool" where
  "separated ws = list_all (\<lambda>w. (fst w = Stdout) = isMessageOut (snd w)) ws"

subsection \<open>Setup errors as the specification words them\<close>

text \<open>
  The specification names two kinds of setup error: a file of TLS material (CA,
  certificate or key, in this order) that cannot be read, and a filter pattern that does
  not compile. \<open>readError\<close> is the first unreadable file among the configured ones, and
  \<open>regexError\<close> is the error line for a configured pattern that does not compile.
\<close>

definition materialError :: "runtime \<Rightarrow> string option \<Rightarrow> error option" where
  "materialError rt p =
     (case p of
        None \<Rightarrow> None
      | Some path \<Rightarrow>
          if path = [] then None
          else (case readFile rt path of Inl m \<Rightarrow> Some (ReadFileError path m) | Inr b \<Rightarrow> None))"

definition readError :: "runtime \<Rightarrow> opts \<Rightarrow> error option" where
  "readError rt op =
     (case materialError rt (o_ca op) of
        Some e \<Rightarrow> Some e
      | None \<Rightarrow>
          (case materialError rt (o_cert op) of
             Some e \<Rightarrow> Some e
           | None \<Rightarrow> materialError rt (o_key op)))"

definition regexError :: "runtime \<Rightarrow> string option \<Rightarrow> string \<Rightarrow> line option" where
  "regexError rt pattern label =
     (case pattern of
        None \<Rightarrow> None
      | Some p \<Rightarrow>
          if p = [] then None
          else (case regexp rt p of Inl m \<Rightarrow> Some (InvalidRegex label p m) | Inr re \<Rightarrow> None))"

text \<open>The matcher a pattern compiles to, when it compiles.\<close>

definition compiled :: "runtime \<Rightarrow> string option \<Rightarrow> (string \<Rightarrow> bool) option" where
  "compiled rt pattern =
     (case pattern of
        None \<Rightarrow> None
      | Some p \<Rightarrow>
          if p = [] then None
          else (case regexp rt p of Inl m \<Rightarrow> None | Inr re \<Rightarrow> Some re))"

text \<open>The two debug lines that setup writes before it reads any file.\<close>

definition setupPrefix :: "opts \<Rightarrow> (channel \<times> line) list" where
  "setupPrefix op =
     dbgl op (DbgNote ''building broker URL'') @ dbgl op (DbgNote ''building connect options'')"

text \<open>
  The shape of the connection notices of a state: none before the first handshake, and
  afterwards one \<open>Connected\<close> followed by \<open>Reconnected\<close> only.
\<close>

definition connectShape :: "ctx \<Rightarrow> sys \<Rightarrow> bool" where
  "connectShape c s =
     (connectNotices s =
        (if everConnected s
         then (Stderr, Connected (brokerUrl c))
                # replicate (length (connectNotices s) - 1) (Stderr, Reconnected (brokerUrl c))
         else []))"

subsection \<open>A concrete runtime, for evaluating the model\<close>

text \<open>
  A small runtime on which the definitions can be run: the pattern \<open>(\<close> does not compile
  and every other pattern matches the texts that start with it; one file is missing;
  \<open>parseInt\<close> gives a number back (the fixture is used with small numbers only) and reads
  no text.
\<close>

definition demoRuntime :: runtime where
  "demoRuntime =
     \<lparr>regexp = (\<lambda>p. if p = ''('' then Inl ''Unterminated group''
                    else Inr (\<lambda>t. take (length p) t = p)),
      readFile = (\<lambda>p. if p = ''/missing.pem'' then Inl ''ENOENT'' else Inr ''PEM''),
      formatMessage = (\<lambda>topic payload pkt op. topic @ '' '' @ payload),
      toString = (\<lambda>b. b),
      parseInt = (\<lambda>v. case v of CountNumber n \<Rightarrow> Some n | CountText t \<Rightarrow> None),
      randomId = ''a1b2c3''\<rparr>"

definition demoOpts :: opts where
  "demoOpts =
     \<lparr>o_verbose = False, o_retained = None, o_count = None, o_qos = None, o_filter = None,
      o_payloadFilter = None, o_clientId = None, o_username = None, o_password = None,
      o_host = None, o_port = None, o_tls = False, o_ca = None, o_cert = None, o_key = None\<rparr>"

definition demoCtx :: "opts \<Rightarrow> ctx" where
  "demoCtx op =
     \<lparr>c_opts = op, c_topics = [''#''], brokerUrl = Url ''mqtt'' ''localhost'' (PortNumber 1883), c_qos = 0,
      topicFilter = None, payloadFilter = None, maxMessages = maxMessagesOf demoRuntime op\<rparr>"

definition demoStart :: sys where
  "demoStart = boot\<lparr>out := [(Stderr, Connecting (Url ''mqtt'' ''localhost'' (PortNumber 1883)) None)],
                     mqttConnects := 1\<rparr>"

definition plain :: packet where
  "plain = \<lparr>p_qos = 0, p_retain = False\<rparr>"

text \<open>A context with both filters and without retained messages, in verbose mode.\<close>

definition demoFiltered :: ctx where
  "demoFiltered = (demoCtx (demoOpts\<lparr>o_retained := Some False, o_verbose := True\<rparr>))
      \<lparr>topicFilter := Some (\<lambda>t. take 8 t = ''sensors/''),
       payloadFilter := Some (\<lambda>t. take 1 t = ''{'')\<rparr>"

section \<open>Properties of the handlers\<close>

subsection \<open>Basic facts about the writers\<close>

lemma emit_eq: "emit ch t s = s\<lparr>out := out s @ [(ch, t)]\<rparr>"
  by (simp add: emit_def)

lemma dbg_eq: "dbg op m s = s\<lparr>out := out s @ dbgl op m\<rparr>"
  by (simp add: dbg_def dbgl_def emit_def)

lemma written_app [simp]:
  "written ch (s\<lparr>out := out s @ ws\<rparr>) = written ch s @ map snd (filter (\<lambda>w. fst w = ch) ws)"
  by (simp add: written_def)

lemma dbgl_stdout [simp]: "filter (\<lambda>w. fst w = Stdout) (dbgl op m) = []"
  by (simp add: dbgl_def)

lemma dbgl_debug [simp]: "filter (\<lambda>w. \<not> isDebug (snd w)) (dbgl op m) = []"
  by (simp add: dbgl_def)

lemma separated_append [simp]: "separated (xs @ ys) = (separated xs \<and> separated ys)"
  by (simp add: separated_def)

lemma separated_dbgl [simp]: "separated (dbgl op m)"
  by (simp add: separated_def dbgl_def)

subsection \<open>The subscribe callback's loop\<close>

lemma watch_fold:
  "foldl (\<lambda>s' (t, g). emit Stderr (Watching t g) (dbg op (DbgSubscribed t g) s')) s granted =
     s\<lparr>out := out s @ watchLines op granted\<rparr>"
proof (induction granted arbitrary: s)
  case Nil
  then show ?case by (simp add: watchLines_def)
next
  case (Cons x xs)
  let ?F = "\<lambda>s' (t, g). emit Stderr (Watching t g) (dbg op (DbgSubscribed t g) s')"
  have step: "?F s x = s\<lparr>out := out s @ watchLines op [x]\<rparr>"
    by (cases x) (simp add: emit_eq dbg_eq watchLines_def)
  have "foldl ?F s (x # xs) = foldl ?F (?F s x) xs"
    by simp
  also have "\<dots> = (?F s x)\<lparr>out := out (?F s x) @ watchLines op xs\<rparr>"
    by (rule Cons.IH)
  also have "\<dots> = s\<lparr>out := out s @ watchLines op (x # xs)\<rparr>"
    by (simp only: step) (simp add: watchLines_def)
  finally show ?case .
qed

lemma watchLines_stdout [simp]: "filter (\<lambda>w. fst w = Stdout) (watchLines op granted) = []"
  by (induction granted) (auto simp: watchLines_def)

lemma watchLines_separated [simp]: "separated (watchLines op granted)"
  by (induction granted) (auto simp: watchLines_def separated_def dbgl_def)

lemma watchLines_notices [simp]:
  "filter (\<lambda>w. isOfflineNotice (snd w)) (watchLines op granted) = []"
  "filter (\<lambda>w. isConnectNotice (snd w)) (watchLines op granted) = []"
  by (induction granted; auto simp: watchLines_def dbgl_def)+

lemma onSubscribed_eq:
  "onSubscribed c r s =
     (case r of
        Inl m \<Rightarrow> s\<lparr>out := out s @ [(Stderr, SubscribeError m)], halted := Some (Exit 1)\<rparr>
      | Inr granted \<Rightarrow> s\<lparr>out := out s @ watchLines (c_opts c) granted @ [(Stderr, Blank)]\<rparr>)"
  unfolding onSubscribed_def watch_fold
  by (simp add: emit_eq exit_def split: sum.splits)

subsection \<open>A process that has ended\<close>

lemma handle_halted: "halted s \<noteq> None \<Longrightarrow> handle rt c ev s = s"
  by (simp add: handle_def)

lemma run_halted: "halted s \<noteq> None \<Longrightarrow> run rt c evs s = s"
  by (induction evs) (simp_all add: handle_halted)

lemma run_append: "run rt c (xs @ ys) s = run rt c ys (run rt c xs s)"
  by (induction xs arbitrary: s) simp_all

lemmas handler_defs =
  onConnect_def onReconnect_def onError_def onOffline_def onMessage_def shutdown_def
  onSubscribed_eq clientEnd_def exit_def emit_eq dbg_eq

subsection \<open>The message handler\<close>

lemma eligible_iff:
  "eligible rt c topic payload pkt \<longleftrightarrow>
     \<not> (o_retained (c_opts c) = Some False \<and> p_retain pkt) \<and>
     (case topicFilter c of None \<Rightarrow> True | Some re \<Rightarrow> re topic) \<and>
     (case payloadFilter c of None \<Rightarrow> True | Some re \<Rightarrow> re (toString rt payload))"
  by (simp add: eligible_def stages_def split: option.splits)

lemma onMessage_dropped:
  assumes "firstFailing (stages rt c) topic payload pkt = Some st"
  shows "onMessage rt c topic payload pkt s =
           s\<lparr>out := out s
                @ dbgl (c_opts c) (DbgMessage topic (length payload) (p_qos pkt) (p_retain pkt))
                @ dbgl (c_opts c) (DbgDropped st)\<rparr>"
  using assms
  by (auto simp add: onMessage_def stages_def Let_def dbg_eq split: option.splits if_splits)

lemma onMessage_forwarded:
  assumes "eligible rt c topic payload pkt"
  shows "onMessage rt c topic payload pkt s =
           s\<lparr>out := out s
                 @ dbgl (c_opts c) (DbgMessage topic (length payload) (p_qos pkt) (p_retain pkt))
                 @ [(Stdout, MessageOut (formatMessage rt topic payload pkt (c_opts c)))]
                 @ dbgl (c_opts c) (DbgPrinted (messageCount s + 1))
                 @ (if reached (messageCount s + 1) (maxMessages c)
                    then dbgl (c_opts c)
                           (DbgLimit (case maxMessages c of Finite m \<Rightarrow> m | _ \<Rightarrow> 0))
                    else []),
               messageCount := messageCount s + 1,
               endCalls := endCalls s + (if reached (messageCount s + 1) (maxMessages c) then 1 else 0)\<rparr>"
  using assms
  by (auto simp add: onMessage_def eligible_iff Let_def dbg_eq emit_eq clientEnd_def
      split: option.splits if_splits)

lemma not_eligible_dropped:
  "\<not> eligible rt c topic payload pkt \<Longrightarrow>
     \<exists>st. firstFailing (stages rt c) topic payload pkt = Some st"
  by (simp add: eligible_def)

lemma handle_message_steady:
  assumes "halted s = None"
  shows "halted (handle rt c (EvMessage topic payload pkt) s) = None \<and>
         written Stdout (handle rt c (EvMessage topic payload pkt) s) =
           written Stdout s @ eligibleOutput rt c [EvMessage topic payload pkt] \<and>
         messageCount (handle rt c (EvMessage topic payload pkt) s) =
           messageCount s + length (eligibleOutput rt c [EvMessage topic payload pkt])"
proof (cases "eligible rt c topic payload pkt")
  case True
  then show ?thesis
    using assms by (simp add: handle_def onMessage_forwarded written_def)
next
  case False
  then obtain st where "firstFailing (stages rt c) topic payload pkt = Some st"
    using not_eligible_dropped by blast
  then show ?thesis
    using assms False by (simp add: handle_def onMessage_dropped written_def)
qed

lemma handle_steady:
  assumes "halted s = None" and "steady ev"
  shows "halted (handle rt c ev s) = None \<and>
         written Stdout (handle rt c ev s) = written Stdout s @ eligibleOutput rt c [ev] \<and>
         messageCount (handle rt c ev s) = messageCount s + length (eligibleOutput rt c [ev])"
proof (cases ev)
  case (EvMessage topic payload pkt)
  then show ?thesis using handle_message_steady [OF assms(1), of rt c topic payload pkt] by simp
next
  case (EvSubscribeCallback r)
  then show ?thesis using assms
    by (cases r) (simp_all add: handle_def onSubscribed_eq written_def)
qed (use assms in \<open>simp_all add: handle_def handler_defs Let_def written_def\<close>)

subsection \<open>Executions without events that end the process\<close>

lemma eligibleOutput_append:
  "eligibleOutput rt c (xs @ ys) = eligibleOutput rt c xs @ eligibleOutput rt c ys"
  by (induction xs rule: eligibleOutput.induct) simp_all

lemma run_steady:
  assumes "halted s = None" and "\<forall>ev \<in> set evs. steady ev"
  shows "halted (run rt c evs s) = None \<and>
         written Stdout (run rt c evs s) = written Stdout s @ eligibleOutput rt c evs \<and>
         messageCount (run rt c evs s) = messageCount s + length (eligibleOutput rt c evs)"
  using assms
proof (induction evs arbitrary: s)
  case Nil
  then show ?case by simp
next
  case (Cons ev evs)
  have st: "halted (handle rt c ev s) = None"
    and wr: "written Stdout (handle rt c ev s) = written Stdout s @ eligibleOutput rt c [ev]"
    and mc: "messageCount (handle rt c ev s) = messageCount s + length (eligibleOutput rt c [ev])"
    using handle_steady [of s ev rt c] Cons.prems by simp_all
  have ih: "halted (run rt c evs (handle rt c ev s)) = None \<and>
      written Stdout (run rt c evs (handle rt c ev s)) =
        written Stdout (handle rt c ev s) @ eligibleOutput rt c evs \<and>
      messageCount (run rt c evs (handle rt c ev s)) =
        messageCount (handle rt c ev s) + length (eligibleOutput rt c evs)"
    using Cons.IH [OF st] Cons.prems(2) by simp
  have split: "eligibleOutput rt c (ev # evs) = eligibleOutput rt c [ev] @ eligibleOutput rt c evs"
    using eligibleOutput_append [of rt c "[ev]" evs] by simp
  show ?case using ih wr mc split by simp
qed

subsection \<open>Executions without a count limit\<close>

lemma handle_limit_infinite:
  assumes "maxMessages c = Infinity" and "\<not> isSignal ev"
    and "endCalls s = 0" and "halted s \<noteq> Some (Exit 0)"
  shows "endCalls (handle rt c ev s) = 0 \<and> halted (handle rt c ev s) \<noteq> Some (Exit 0)"
proof (cases "halted s = None")
  case False
  then show ?thesis using assms by (simp add: handle_halted)
next
  case True
  show ?thesis
  proof (cases ev)
    case (EvMessage topic payload pkt)
    show ?thesis
    proof (cases "eligible rt c topic payload pkt")
      case True
      then show ?thesis using assms \<open>halted s = None\<close> EvMessage
        by (simp add: handle_def onMessage_forwarded)
    next
      case False
      then obtain st where "firstFailing (stages rt c) topic payload pkt = Some st"
        using not_eligible_dropped by blast
      then show ?thesis using assms \<open>halted s = None\<close> EvMessage
        by (simp add: handle_def onMessage_dropped)
    qed
  next
    case (EvSubscribeCallback r)
    then show ?thesis using assms True
      by (cases r) (simp_all add: handle_def onSubscribed_eq)
  qed (use assms True in \<open>simp_all add: handle_def handler_defs Let_def\<close>)
qed

lemma run_limit_infinite:
  assumes "maxMessages c = Infinity" and "\<forall>ev \<in> set evs. \<not> isSignal ev"
    and "endCalls s = 0" and "halted s \<noteq> Some (Exit 0)"
  shows "endCalls (run rt c evs s) = 0 \<and> halted (run rt c evs s) \<noteq> Some (Exit 0)"
  using assms(2-)
proof (induction evs arbitrary: s)
  case Nil
  then show ?case by simp
next
  case (Cons ev evs)
  then show ?case
    using handle_limit_infinite [OF assms(1), of ev s rt] by simp
qed

subsection \<open>The setup phase\<close>

lemma compileFilter_cases:
  "compileFilter rt pattern label s = (re, s') \<Longrightarrow>
     (s' = s \<or>
      (\<exists>p m. pattern = Some p \<and> p \<noteq> [] \<and> regexp rt p = Inl m \<and> re = None \<and>
           s' = s\<lparr>out := out s @ [(Stderr, InvalidRegex label p m)], halted := Some (Exit 1)\<rparr>))"
  by (auto simp add: compileFilter_def emit_eq exit_def split: option.splits if_splits sum.splits)

lemma setup_fold:
  "foldl (\<lambda>s n. dbg op (DbgNote n) s) s ns = s\<lparr>out := out s @ concat (map (\<lambda>n. dbgl op (DbgNote n)) ns)\<rparr>"
proof (induction ns arbitrary: s)
  case Nil
  then show ?case by simp
next
  case (Cons n ns)
  have "foldl (\<lambda>s n. dbg op (DbgNote n) s) s (n # ns) =
          foldl (\<lambda>s n. dbg op (DbgNote n) s) (dbg op (DbgNote n) s) ns"
    by simp
  also have "\<dots> = (dbg op (DbgNote n) s)\<lparr>out := out (dbg op (DbgNote n) s)
                      @ concat (map (\<lambda>n. dbgl op (DbgNote n)) ns)\<rparr>"
    by (rule Cons.IH)
  also have "\<dots> = s\<lparr>out := out s @ concat (map (\<lambda>n. dbgl op (DbgNote n)) (n # ns))\<rparr>"
    by (simp add: dbg_eq)
  finally show ?case .
qed

lemma separated_Nil [simp]: "separated []"
  by (simp add: separated_def)

lemma notes_separated [simp]: "separated (concat (map (\<lambda>n. dbgl op (DbgNote n)) ns))"
  by (induction ns) simp_all

lemma notes_stdout [simp]:
  "filter (\<lambda>w. fst w = Stdout) (concat (map (\<lambda>n. dbgl op (DbgNote n)) ns)) = []"
  by (induction ns) simp_all

lemma notes_debug [simp]:
  "filter (\<lambda>w. \<not> isDebug (snd w)) (concat (map (\<lambda>n. dbgl op (DbgNote n)) ns)) = []"
  by (induction ns) simp_all

lemma boot_simps [simp]:
  "out boot = []" "halted boot = None" "messageCount boot = 0" "endCalls boot = 0"
  "mqttConnects boot = 0" "everConnected boot = False" "offlineShown boot = False"
  "subscribeCalls boot = 0" "subscribeAcks boot = 0"
  by (simp_all add: boot_def)

lemma connect_started:
  assumes "connect rt topics op = (Some c, s)"
  shows "halted s = None" "messageCount s = 0" "endCalls s = 0" "mqttConnects s = 1"
    "everConnected s = False" "offlineShown s = False" "written Stdout s = []"
    "separated (out s)" "c_opts c = op" "maxMessages c = maxMessagesOf rt op"
    "filter (\<lambda>w. isConnectNotice (snd w)) (out s) = []"
    "subscribeCalls s = 0" "subscribeAcks s = 0"
proof -
  obtain co where co: "buildConnectOptions rt op = Inr co"
    using assms by (cases "buildConnectOptions rt op") (simp_all add: connect_def Let_def)
  let ?s2 = "dbg op (DbgNote ''building connect options'') (dbg op (DbgNote ''building broker URL'') boot)"
  obtain tf s3 where tf: "compileFilter rt (o_filter op) ''--filter'' ?s2 = (tf, s3)"
    by (cases "compileFilter rt (o_filter op) ''--filter'' ?s2")
  obtain pf s4 where pf: "compileFilter rt (o_payloadFilter op) ''--payload-filter'' s3 = (pf, s4)"
    by (cases "compileFilter rt (o_payloadFilter op) ''--payload-filter'' s3")
  have h3: "halted s3 = None" and h4: "halted s4 = None"
    using assms co tf pf by (auto simp add: connect_def Let_def split: if_splits)
  have e3: "s3 = ?s2" using compileFilter_cases [OF tf] h3 by auto
  have e4: "s4 = s3" using compileFilter_cases [OF pf] h4 by auto
  have s: "s = (emit Stderr (Connecting (buildBrokerUrl op) (username co))
                 (foldl (\<lambda>s n. dbg op (DbgNote n) s) s4 setupNotes))
              \<lparr>mqttConnects := mqttConnects s4 + 1\<rparr>"
    and c: "c = \<lparr>c_opts = op, c_topics = topics, brokerUrl = buildBrokerUrl op,
              c_qos = (case o_qos op of None \<Rightarrow> 0 | Some n \<Rightarrow> n),
              topicFilter = tf, payloadFilter = pf, maxMessages = maxMessagesOf rt op\<rparr>"
    using assms co tf pf h3 h4 by (auto simp add: connect_def Let_def setup_fold emit_eq)
  show "halted s = None" "messageCount s = 0" "endCalls s = 0" "mqttConnects s = 1"
    "everConnected s = False" "offlineShown s = False" "written Stdout s = []"
    "separated (out s)" "c_opts c = op" "maxMessages c = maxMessagesOf rt op"
    "filter (\<lambda>w. isConnectNotice (snd w)) (out s) = []"
    "subscribeCalls s = 0" "subscribeAcks s = 0"
    unfolding s c e4 e3
    by (simp_all add: setup_fold emit_eq dbg_eq written_def separated_def dbgl_def setupNotes_def)
qed

text \<open>The four outcomes of setup.\<close>

lemma compileFilter_regexError:
  "compileFilter rt pattern label s =
     (case regexError rt pattern label of
        Some l \<Rightarrow> (None, s\<lparr>out := out s @ [(Stderr, l)], halted := Some (Exit 1)\<rparr>)
      | None \<Rightarrow> (compiled rt pattern, s))"
  by (simp add: compileFilter_def regexError_def compiled_def emit_eq exit_def
      split: option.splits sum.splits)

lemma connect_read_error:
  assumes "buildConnectOptions rt op = Inl e"
  shows "connect rt topics op = (None, boot\<lparr>out := setupPrefix op, halted := Some (Uncaught e)\<rparr>)"
  using assms by (simp add: connect_def Let_def dbg_eq setupPrefix_def)

lemma connect_topic_error:
  assumes "buildConnectOptions rt op = Inr co"
    and "regexError rt (o_filter op) ''--filter'' = Some l"
  shows "connect rt topics op =
           (None, boot\<lparr>out := setupPrefix op @ [(Stderr, l)], halted := Some (Exit 1)\<rparr>)"
  using assms
  by (simp add: connect_def Let_def dbg_eq setupPrefix_def
      compileFilter_regexError)

lemma connect_payload_error:
  assumes "buildConnectOptions rt op = Inr co"
    and "regexError rt (o_filter op) ''--filter'' = None"
    and "regexError rt (o_payloadFilter op) ''--payload-filter'' = Some l"
  shows "connect rt topics op =
           (None, boot\<lparr>out := setupPrefix op @ [(Stderr, l)], halted := Some (Exit 1)\<rparr>)"
  using assms
  by (simp add: connect_def Let_def dbg_eq setupPrefix_def
      compileFilter_regexError)

lemma connect_no_error:
  assumes "buildConnectOptions rt op = Inr co"
    and "regexError rt (o_filter op) ''--filter'' = None"
    and "regexError rt (o_payloadFilter op) ''--payload-filter'' = None"
  shows "fst (connect rt topics op) \<noteq> None \<and>
         snd (connect rt topics op) =
           boot\<lparr>out := setupPrefix op @ concat (map (\<lambda>n. dbgl op (DbgNote n)) setupNotes)
                     @ [(Stderr, Connecting (buildBrokerUrl op) (username co))],
                mqttConnects := 1\<rparr>"
  using assms unfolding connect_def setup_fold
  by (simp add: Let_def dbg_eq setupPrefix_def emit_eq compileFilter_regexError)

lemma setupPrefix_separated [simp]: "separated (setupPrefix op)"
  by (simp add: setupPrefix_def)

lemma setupPrefix_status [simp]: "filter (\<lambda>w. \<not> isDebug (snd w)) (setupPrefix op) = []"
  by (simp add: setupPrefix_def)

lemma regexError_status:
  "regexError rt pattern label = Some l \<Longrightarrow> \<not> isMessageOut l \<and> \<not> isDebug l"
  by (auto simp add: regexError_def split: option.splits if_splits sum.splits)

subsection \<open>The fixture\<close>

lemma demo_connect:
  "connect demoRuntime [''#''] (demoOpts\<lparr>o_count := n\<rparr>) = (Some (demoCtx (demoOpts\<lparr>o_count := n\<rparr>)), demoStart)"
  by (simp add: connect_def demoRuntime_def demoOpts_def demoCtx_def demoStart_def boot_def
      buildConnectOptions_def buildBrokerUrl_def usesTls_def truthy_def orElse_def
      compileFilter_def dbg_def emit_def setupNotes_def Let_def)

section \<open>The count limit\<close>

text \<open>
  Claim C1 says that for every configured maximum \<open>N \<ge> 1\<close> the controller forwards
  exactly \<open>N\<close> messages when at least \<open>N\<close> eligible ones are delivered, and then exits
  with code 0. The handler does compare the count with the maximum after each forwarded
  message and requests the graceful disconnect once the maximum is reached, but it goes
  on forwarding until the callback of \<open>client.end\<close> ends the process. At a maximum of 2:
  after two eligible messages the count is 2 and the disconnect has been requested once;
  a third eligible message delivered before the callback is written to stdout as well;
  the process then exits with code 0, having forwarded three messages.
\<close>

theorem count_limit_overrun:
  "connect demoRuntime [''#''] (demoOpts\<lparr>o_count := Some (CountNumber 2)\<rparr>) =
     (Some (demoCtx (demoOpts\<lparr>o_count := Some (CountNumber 2)\<rparr>)), demoStart) \<and>
   maxMessages (demoCtx (demoOpts\<lparr>o_count := Some (CountNumber 2)\<rparr>)) = Finite 2 \<and>
   messageCount
     (run demoRuntime (demoCtx (demoOpts\<lparr>o_count := Some (CountNumber 2)\<rparr>))
        [EvMessage ''a'' ''1'' plain, EvMessage ''b'' ''2'' plain] demoStart) = 2 \<and>
   endCalls
     (run demoRuntime (demoCtx (demoOpts\<lparr>o_count := Some (CountNumber 2)\<rparr>))
        [EvMessage ''a'' ''1'' plain, EvMessage ''b'' ''2'' plain] demoStart) = 1 \<and>
   written Stdout
     (run demoRuntime (demoCtx (demoOpts\<lparr>o_count := Some (CountNumber 2)\<rparr>))
        [EvMessage ''a'' ''1'' plain, EvMessage ''b'' ''2'' plain, EvMessage ''c'' ''3'' plain,
         EvEndCallback] demoStart) =
     [MessageOut ''a 1'', MessageOut ''b 2'', MessageOut ''c 3''] \<and>
   halted
     (run demoRuntime (demoCtx (demoOpts\<lparr>o_count := Some (CountNumber 2)\<rparr>))
        [EvMessage ''a'' ''1'' plain, EvMessage ''b'' ''2'' plain, EvMessage ''c'' ''3'' plain,
         EvEndCallback] demoStart) = Some (Exit 0)"
  by (simp add: demo_connect)
     (simp add: handle_def onMessage_def demoCtx_def demoOpts_def demoRuntime_def demoStart_def
        boot_def plain_def maxMessagesOf_def dbg_def emit_def clientEnd_def exit_def written_def
        Let_def)

section \<open>The filter pipeline\<close>

text \<open>
  Claim C2. The pipeline has the three stages retained-drop, topic filter, payload filter
  in this order. A message is eligible (no stage drops it) exactly when it is not a
  retained message while retained messages are disallowed, the topic matcher is absent
  or matches the topic, and the payload matcher is absent or matches the payload text.
  The handler behaves as the short-circuit evaluation of the stages from the left: if
  some stage fails, the handler returns at the first failing one (its debug line names
  that stage), nothing is written to stdout, and neither the count nor the number of
  disconnect requests changes; if none fails, the rendering of the message is appended
  to stdout and the count grows by one.
\<close>

theorem filter_pipeline:
  "map fst (stages rt c) = [RetainedDrop, TopicFilter, PayloadFilter] \<and>
   (eligible rt c topic payload pkt \<longleftrightarrow>
      \<not> (o_retained (c_opts c) = Some False \<and> p_retain pkt) \<and>
      (case topicFilter c of None \<Rightarrow> True | Some re \<Rightarrow> re topic) \<and>
      (case payloadFilter c of None \<Rightarrow> True | Some re \<Rightarrow> re (toString rt payload))) \<and>
   (case firstFailing (stages rt c) topic payload pkt of
      Some st \<Rightarrow>
        onMessage rt c topic payload pkt s =
          dbg (c_opts c) (DbgDropped st)
            (dbg (c_opts c) (DbgMessage topic (length payload) (p_qos pkt) (p_retain pkt)) s) \<and>
        written Stdout (onMessage rt c topic payload pkt s) = written Stdout s \<and>
        messageCount (onMessage rt c topic payload pkt s) = messageCount s \<and>
        endCalls (onMessage rt c topic payload pkt s) = endCalls s
    | None \<Rightarrow>
        written Stdout (onMessage rt c topic payload pkt s) =
          written Stdout s @ [MessageOut (formatMessage rt topic payload pkt (c_opts c))] \<and>
        messageCount (onMessage rt c topic payload pkt s) = messageCount s + 1)"
proof -
  have order: "map fst (stages rt c) = [RetainedDrop, TopicFilter, PayloadFilter]"
    by (simp add: stages_def)
  have rest: "(case firstFailing (stages rt c) topic payload pkt of
      Some st \<Rightarrow>
        onMessage rt c topic payload pkt s =
          dbg (c_opts c) (DbgDropped st)
            (dbg (c_opts c) (DbgMessage topic (length payload) (p_qos pkt) (p_retain pkt)) s) \<and>
        written Stdout (onMessage rt c topic payload pkt s) = written Stdout s \<and>
        messageCount (onMessage rt c topic payload pkt s) = messageCount s \<and>
        endCalls (onMessage rt c topic payload pkt s) = endCalls s
    | None \<Rightarrow>
        written Stdout (onMessage rt c topic payload pkt s) =
          written Stdout s @ [MessageOut (formatMessage rt topic payload pkt (c_opts c))] \<and>
        messageCount (onMessage rt c topic payload pkt s) = messageCount s + 1)"
  proof (cases "firstFailing (stages rt c) topic payload pkt")
    case None
    then have "eligible rt c topic payload pkt"
      by (simp add: eligible_def)
    then show ?thesis
      using None by (simp add: onMessage_forwarded written_def)
  next
    case (Some st)
    then show ?thesis
      by (simp add: onMessage_dropped dbg_eq written_def)
  qed
  show ?thesis
    using order eligible_iff [of rt c topic payload pkt] rest by blast
qed

text \<open>
  The pipeline on a context with both filters: a retained message, a message with the
  wrong topic, one with the wrong payload, and an eligible one.
\<close>

theorem filter_pipeline_witness:
  "firstFailing (stages demoRuntime demoFiltered) ''home/x'' ''{}'' (plain\<lparr>p_retain := True\<rparr>)
     = Some RetainedDrop \<and>
   firstFailing (stages demoRuntime demoFiltered) ''home/x'' ''{}'' plain = Some TopicFilter \<and>
   firstFailing (stages demoRuntime demoFiltered) ''sensors/t'' ''23'' plain = Some PayloadFilter \<and>
   eligible demoRuntime demoFiltered ''sensors/t'' ''{}'' plain \<and>
   written Stdout (onMessage demoRuntime demoFiltered ''home/x'' ''{}'' plain demoStart) = [] \<and>
   written Stdout (onMessage demoRuntime demoFiltered ''sensors/t'' ''{}'' plain demoStart) =
     [MessageOut ''sensors/t {}'']"
proof -
  have f1: "firstFailing (stages demoRuntime demoFiltered) ''home/x'' ''{}'' (plain\<lparr>p_retain := True\<rparr>)
     = Some RetainedDrop"
    and f2: "firstFailing (stages demoRuntime demoFiltered) ''home/x'' ''{}'' plain = Some TopicFilter"
    and f3: "firstFailing (stages demoRuntime demoFiltered) ''sensors/t'' ''23'' plain = Some PayloadFilter"
    and f4: "firstFailing (stages demoRuntime demoFiltered) ''sensors/t'' ''{}'' plain = None"
    by (simp_all add: stages_def demoFiltered_def demoCtx_def demoOpts_def demoRuntime_def plain_def)
  have w0: "written Stdout demoStart = []"
    by (simp add: written_def demoStart_def)
  have fm: "formatMessage demoRuntime ''sensors/t'' ''{}'' plain (c_opts demoFiltered) = ''sensors/t {}''"
    by (simp add: demoRuntime_def)
  have "written Stdout (onMessage demoRuntime demoFiltered ''home/x'' ''{}'' plain demoStart) =
          written Stdout demoStart"
    using filter_pipeline [of demoRuntime demoFiltered "''home/x''" "''{}''" plain demoStart,
        unfolded f2 option.case]
    by blast
  then have d: "written Stdout (onMessage demoRuntime demoFiltered ''home/x'' ''{}'' plain demoStart) = []"
    by (simp only: w0)
  have "written Stdout (onMessage demoRuntime demoFiltered ''sensors/t'' ''{}'' plain demoStart) =
          written Stdout demoStart
            @ [MessageOut (formatMessage demoRuntime ''sensors/t'' ''{}'' plain (c_opts demoFiltered))]"
    using filter_pipeline [of demoRuntime demoFiltered "''sensors/t''" "''{}''" plain demoStart,
        unfolded f4 option.case]
    by blast
  then have e: "eligible demoRuntime demoFiltered ''sensors/t'' ''{}'' plain \<and>
     written Stdout (onMessage demoRuntime demoFiltered ''sensors/t'' ''{}'' plain demoStart) =
     [MessageOut ''sensors/t {}'']"
    using f4 by (simp only: w0 fm eligible_def append_Nil)
  show ?thesis using f1 f2 f3 d e by blast
qed

section \<open>No count limit\<close>

text \<open>
  Claim C10. When the configured count is absent or 0, the limit is infinite. Then in
  every execution without a shutdown signal no graceful disconnect is ever requested and
  the process never exits with code 0; and as long as no event ends the process, every
  eligible message is forwarded, however many there are.
\<close>

theorem no_limit_without_count:
  assumes "connect rt topics op = (Some c, s0)"
    and "o_count op = None \<or> o_count op = Some (CountNumber 0)"
  shows "maxMessages c = Infinity \<and>
         ((\<forall>ev \<in> set evs. \<not> isSignal ev) \<longrightarrow>
            endCalls (run rt c evs s0) = 0 \<and> halted (run rt c evs s0) \<noteq> Some (Exit 0)) \<and>
         ((\<forall>ev \<in> set evs. steady ev) \<longrightarrow>
            halted (run rt c evs s0) = None \<and>
            written Stdout (run rt c evs s0) = eligibleOutput rt c evs \<and>
            messageCount (run rt c evs s0) = length (eligibleOutput rt c evs))"
proof -
  note st = connect_started [OF assms(1)]
  have inf: "maxMessages c = Infinity"
    using st(10) assms(2) by (auto simp add: maxMessagesOf_def)
  have a: "endCalls (run rt c evs s0) = 0 \<and> halted (run rt c evs s0) \<noteq> Some (Exit 0)"
    if "\<forall>ev \<in> set evs. \<not> isSignal ev"
    using run_limit_infinite [OF inf that st(3), of rt] st(1) by simp
  have b: "halted (run rt c evs s0) = None \<and>
            written Stdout (run rt c evs s0) = eligibleOutput rt c evs \<and>
            messageCount (run rt c evs s0) = length (eligibleOutput rt c evs)"
    if "\<forall>ev \<in> set evs. steady ev"
    using run_steady [OF st(1) that, of rt c] st(2,7) by simp
  show ?thesis using inf a b by blast
qed

text \<open>
  With a count of 0, two messages are forwarded and the callback of \<open>client.end\<close> has
  nothing to run.
\<close>

theorem no_limit_without_count_witness:
  "maxMessages (demoCtx (demoOpts\<lparr>o_count := Some (CountNumber 0)\<rparr>)) = Infinity \<and>
   endCalls
     (run demoRuntime (demoCtx (demoOpts\<lparr>o_count := Some (CountNumber 0)\<rparr>))
        [EvMessage ''a'' ''1'' plain, EvMessage ''b'' ''2'' plain, EvEndCallback] demoStart) = 0 \<and>
   written Stdout
     (run demoRuntime (demoCtx (demoOpts\<lparr>o_count := Some (CountNumber 0)\<rparr>))
        [EvMessage ''a'' ''1'' plain, EvMessage ''b'' ''2'' plain] demoStart) =
     [MessageOut ''a 1'', MessageOut ''b 2'']"
proof -
  let ?op = "demoOpts\<lparr>o_count := Some (CountNumber 0)\<rparr>"
  let ?evs = "[EvMessage ''a'' ''1'' plain, EvMessage ''b'' ''2'' plain]"
  have e: "eligibleOutput demoRuntime (demoCtx ?op) ?evs = [MessageOut ''a 1'', MessageOut ''b 2'']"
    by (simp add: eligible_def stages_def demoCtx_def demoOpts_def demoRuntime_def plain_def)
  have h1: "connect demoRuntime [''#''] ?op = (Some (demoCtx ?op), demoStart)"
    by (rule demo_connect)
  have h2: "o_count ?op = None \<or> o_count ?op = Some (CountNumber 0)" by simp
  have n1: "\<forall>ev \<in> set (?evs @ [EvEndCallback]). \<not> isSignal ev" by simp
  have n2: "\<forall>ev \<in> set ?evs. steady ev" by simp
  from no_limit_without_count [OF h1 h2, of "?evs @ [EvEndCallback]"] n1
  have a: "maxMessages (demoCtx ?op) = Infinity \<and>
           endCalls (run demoRuntime (demoCtx ?op) (?evs @ [EvEndCallback]) demoStart) = 0"
    by blast
  from no_limit_without_count [OF h1 h2, of ?evs] n2
  have "written Stdout (run demoRuntime (demoCtx ?op) ?evs demoStart) =
          eligibleOutput demoRuntime (demoCtx ?op) ?evs"
    by blast
  then have b: "written Stdout (run demoRuntime (demoCtx ?op) ?evs demoStart) =
          [MessageOut ''a 1'', MessageOut ''b 2'']"
    by (simp only: e)
  show ?thesis using a b by simp
qed

section \<open>Shutdown on a signal\<close>

lemma handle_signal:
  assumes "halted s = None"
  shows "handle rt c (EvSignal sg) s =
           s\<lparr>out := out s @ dbgl (c_opts c) DbgShutdown @ [(Stderr, Disconnecting)],
              endCalls := endCalls s + 1\<rparr>"
  using assms by (simp add: handle_def shutdown_def clientEnd_def emit_eq dbg_eq)

lemma dbgl_not_disconnecting [simp]:
  "filter (\<lambda>w. w = (Stderr, Disconnecting)) (dbgl op m) = []"
  by (simp add: dbgl_def)

lemma run_signals:
  assumes "halted s = None"
  shows "halted (run rt c (map EvSignal sgs) s) = None \<and>
         endCalls (run rt c (map EvSignal sgs) s) = endCalls s + length sgs \<and>
         filter (\<lambda>w. w = (Stderr, Disconnecting)) (out (run rt c (map EvSignal sgs) s)) =
           filter (\<lambda>w. w = (Stderr, Disconnecting)) (out s)
             @ replicate (length sgs) (Stderr, Disconnecting) \<and>
         written Stdout (run rt c (map EvSignal sgs) s) = written Stdout s \<and>
         messageCount (run rt c (map EvSignal sgs) s) = messageCount s"
  using assms
proof (induction sgs arbitrary: s)
  case Nil
  then show ?case by simp
next
  case (Cons sg sgs)
  let ?s1 = "handle rt c (EvSignal sg) s"
  have h: "halted ?s1 = None"
    using Cons.prems by (simp add: handle_signal)
  show ?case
    using Cons.IH [OF h] Cons.prems
    by (simp add: handle_signal written_def replicate_app_Cons_same)
qed

text \<open>
  Claim C3, as the code has it. \<open>shutdown\<close> keeps no shutting-down flag: every signal
  handled while the process is running writes one \<open>Disconnecting...\<close> line and calls
  \<open>client.end\<close> once more, so \<open>n\<close> signals make \<open>n\<close> requests and \<open>n\<close> lines. After at
  least one signal the callback of \<open>client.end\<close> ends the process with code 0, and the
  process ends once: no later event changes anything.
\<close>

theorem shutdown_per_signal:
  assumes "halted s = None"
  shows "halted (run rt c (map EvSignal sgs) s) = None \<and>
         endCalls (run rt c (map EvSignal sgs) s) = endCalls s + length sgs \<and>
         filter (\<lambda>w. w = (Stderr, Disconnecting)) (out (run rt c (map EvSignal sgs) s)) =
           filter (\<lambda>w. w = (Stderr, Disconnecting)) (out s)
             @ replicate (length sgs) (Stderr, Disconnecting) \<and>
         (sgs \<noteq> [] \<longrightarrow>
            halted (run rt c (map EvSignal sgs @ [EvEndCallback]) s) = Some (Exit 0) \<and>
            run rt c (map EvSignal sgs @ EvEndCallback # evs) s =
              run rt c (map EvSignal sgs @ [EvEndCallback]) s)"
proof -
  let ?s = "run rt c (map EvSignal sgs) s"
  note r = run_signals [OF assms, of rt c sgs]
  have x: "halted (run rt c (map EvSignal sgs @ [EvEndCallback]) s) = Some (Exit 0) \<and>
           run rt c (map EvSignal sgs @ EvEndCallback # evs) s =
             run rt c (map EvSignal sgs @ [EvEndCallback]) s"
    if "sgs \<noteq> []"
  proof -
    have "0 < endCalls ?s" using r that by simp
    then have e: "handle rt c EvEndCallback ?s = ?s\<lparr>halted := Some (Exit 0)\<rparr>"
      using r by (simp add: handle_def exit_def)
    have "run rt c evs (handle rt c EvEndCallback ?s) = handle rt c EvEndCallback ?s"
      by (rule run_halted) (simp add: e)
    then show ?thesis by (simp add: run_append e)
  qed
  show ?thesis using r x by blast
qed

text \<open>
One signal after setup, then the callback.
\<close>

theorem shutdown_per_signal_witness:
  "endCalls (run demoRuntime (demoCtx demoOpts) (map EvSignal [SIGINT]) demoStart) = 1 \<and>
   halted (run demoRuntime (demoCtx demoOpts) (map EvSignal [SIGINT] @ [EvEndCallback]) demoStart)
     = Some (Exit 0)"
proof -
  have h: "halted demoStart = None" and e: "endCalls demoStart = 0"
    by (simp_all add: demoStart_def boot_def)
  from shutdown_per_signal [OF h, of demoRuntime "demoCtx demoOpts" "[SIGINT]" "[]"]
  show ?thesis by (simp only: e) simp
qed

text \<open>
  Claim C3 as stated promises exactly one graceful-disconnect invocation for two signals
  in immediate succession. The code invokes \<open>client.end\<close> twice and writes the status line
  twice.
\<close>

theorem shutdown_twice_counterexample:
  "connect demoRuntime [''#''] (demoOpts\<lparr>o_count := None\<rparr>) =
     (Some (demoCtx (demoOpts\<lparr>o_count := None\<rparr>)), demoStart) \<and>
   endCalls
     (run demoRuntime (demoCtx (demoOpts\<lparr>o_count := None\<rparr>)) [EvSignal SIGINT, EvSignal SIGINT]
        demoStart) = 2 \<and>
   written Stderr
     (run demoRuntime (demoCtx (demoOpts\<lparr>o_count := None\<rparr>)) [EvSignal SIGINT, EvSignal SIGINT]
        demoStart) =
     [Connecting (Url ''mqtt'' ''localhost'' (PortNumber 1883)) None, Disconnecting, Disconnecting]"
  by (simp add: demo_connect)
     (simp add: handle_def shutdown_def demoCtx_def demoOpts_def demoStart_def
        boot_def dbg_def emit_def clientEnd_def written_def)

section \<open>Messages after a shutdown signal\<close>

text \<open>
  Claim C4, as the code has it. Once the process has exited, no event is handled: no
  message is processed or forwarded. The code keeps no shutting-down flag, so while the
  process is running, also after any number of shutdown signals, a delivered message
  goes through the filter pipeline as before: an eligible one is written to stdout and
  counted. This is stated for a message that arrives while the count limit has not been
  reached; nothing is said here about messages beyond the limit.
\<close>

theorem forwarding_stops_at_exit:
  "(halted s \<noteq> None \<longrightarrow> run rt c evs s = s) \<and>
   (halted s = None \<and> eligible rt c topic payload pkt \<and>
    \<not> reached (messageCount s) (maxMessages c) \<longrightarrow>
      halted (run rt c (map EvSignal sgs @ [EvMessage topic payload pkt]) s) = None \<and>
      written Stdout (run rt c (map EvSignal sgs @ [EvMessage topic payload pkt]) s) =
        written Stdout s @ [MessageOut (formatMessage rt topic payload pkt (c_opts c))] \<and>
      messageCount (run rt c (map EvSignal sgs @ [EvMessage topic payload pkt]) s) =
        messageCount s + 1)"
proof -
  have a: "run rt c evs s = s" if "halted s \<noteq> None"
    using that by (rule run_halted)
  have b: "halted (run rt c (map EvSignal sgs @ [EvMessage topic payload pkt]) s) = None \<and>
      written Stdout (run rt c (map EvSignal sgs @ [EvMessage topic payload pkt]) s) =
        written Stdout s @ [MessageOut (formatMessage rt topic payload pkt (c_opts c))] \<and>
      messageCount (run rt c (map EvSignal sgs @ [EvMessage topic payload pkt]) s) =
        messageCount s + 1"
    if h: "halted s = None" and e: "eligible rt c topic payload pkt"
  proof -
    let ?s1 = "run rt c (map EvSignal sgs) s"
    note r = run_signals [OF h, of rt c sgs]
    have h1: "halted ?s1 = None" using r by simp
    have "run rt c (map EvSignal sgs @ [EvMessage topic payload pkt]) s =
            handle rt c (EvMessage topic payload pkt) ?s1"
      by (simp add: run_append)
    then show ?thesis
      using handle_message_steady [OF h1, of rt c topic payload pkt] e r by simp
  qed
  show ?thesis using a b by blast
qed

text \<open>
  A message after the exit changes nothing; a message after a signal is forwarded.
\<close>

theorem forwarding_stops_at_exit_witness:
  "run demoRuntime (demoCtx demoOpts) [EvMessage ''a'' ''1'' plain] (exit 0 demoStart) = exit 0 demoStart \<and>
   written Stdout
     (run demoRuntime (demoCtx demoOpts) (map EvSignal [SIGTERM] @ [EvMessage ''a'' ''1'' plain])
        demoStart) =
     [MessageOut ''a 1'']"
proof -
  have h1: "halted (exit 0 demoStart) \<noteq> None"
    by (simp add: exit_def)
  have h2: "halted demoStart = None"
    by (simp add: demoStart_def boot_def)
  have h3: "eligible demoRuntime (demoCtx demoOpts) ''a'' ''1'' plain"
    by (simp add: eligible_def stages_def demoCtx_def demoOpts_def plain_def)
  have h4: "\<not> reached (messageCount demoStart) (maxMessages (demoCtx demoOpts))"
    by (simp add: demoCtx_def demoOpts_def maxMessagesOf_def)
  have w: "written Stdout demoStart = []"
    by (simp add: written_def demoStart_def)
  have f: "formatMessage demoRuntime ''a'' ''1'' plain (c_opts (demoCtx demoOpts)) = ''a 1''"
    by (simp add: demoRuntime_def)
  from forwarding_stops_at_exit [of "exit 0 demoStart" demoRuntime "demoCtx demoOpts"
      "[EvMessage ''a'' ''1'' plain]"] h1
  have a: "run demoRuntime (demoCtx demoOpts) [EvMessage ''a'' ''1'' plain] (exit 0 demoStart) =
             exit 0 demoStart"
    by blast
  from forwarding_stops_at_exit [of demoStart demoRuntime "demoCtx demoOpts" "[]"
      "''a''" "''1''" plain "[SIGTERM]"] h2 h3 h4
  have "written Stdout
     (run demoRuntime (demoCtx demoOpts) (map EvSignal [SIGTERM] @ [EvMessage ''a'' ''1'' plain])
        demoStart) =
     written Stdout demoStart
       @ [MessageOut (formatMessage demoRuntime ''a'' ''1'' plain (c_opts (demoCtx demoOpts)))]"
    by blast
  then have b: "written Stdout
     (run demoRuntime (demoCtx demoOpts) (map EvSignal [SIGTERM] @ [EvMessage ''a'' ''1'' plain])
        demoStart) =
     [MessageOut ''a 1'']"
    by (simp only: w f append_Nil)
  show ?thesis using a b by blast
qed

text \<open>
  Claim C4 as stated promises that no delivered message is processed or forwarded once
  shutdown has been initiated. After an interrupt signal the disconnect has been
  requested, the process is still running, and a message delivered then is forwarded.
\<close>

theorem forwarded_after_signal_counterexample:
  "connect demoRuntime [''#''] (demoOpts\<lparr>o_count := None\<rparr>) =
     (Some (demoCtx (demoOpts\<lparr>o_count := None\<rparr>)), demoStart) \<and>
   endCalls (run demoRuntime (demoCtx (demoOpts\<lparr>o_count := None\<rparr>)) [EvSignal SIGINT] demoStart) = 1 \<and>
   halted
     (run demoRuntime (demoCtx (demoOpts\<lparr>o_count := None\<rparr>))
        [EvSignal SIGINT, EvMessage ''a'' ''1'' plain] demoStart) = None \<and>
   written Stdout
     (run demoRuntime (demoCtx (demoOpts\<lparr>o_count := None\<rparr>))
        [EvSignal SIGINT, EvMessage ''a'' ''1'' plain] demoStart) =
     [MessageOut ''a 1'']"
  by (simp add: demo_connect)
     (simp add: handle_def onMessage_def shutdown_def demoCtx_def demoOpts_def demoRuntime_def
        demoStart_def boot_def plain_def maxMessagesOf_def dbg_def emit_def clientEnd_def
        written_def Let_def)

section \<open>Offline notices\<close>

lemma dbgl_notices [simp]:
  "filter (\<lambda>w. isOfflineNotice (snd w)) (dbgl op m) = []"
  "filter (\<lambda>w. isConnectNotice (snd w)) (dbgl op m) = []"
  by (simp_all add: dbgl_def)

lemma onMessage_notices:
  "filter (\<lambda>w. isOfflineNotice (snd w)) (out (onMessage rt c topic payload pkt s)) =
     filter (\<lambda>w. isOfflineNotice (snd w)) (out s) \<and>
   filter (\<lambda>w. isConnectNotice (snd w)) (out (onMessage rt c topic payload pkt s)) =
     filter (\<lambda>w. isConnectNotice (snd w)) (out s) \<and>
   offlineShown (onMessage rt c topic payload pkt s) = offlineShown s \<and>
   everConnected (onMessage rt c topic payload pkt s) = everConnected s \<and>
   halted (onMessage rt c topic payload pkt s) = halted s"
proof (cases "eligible rt c topic payload pkt")
  case True
  then show ?thesis by (simp add: onMessage_forwarded)
next
  case False
  then obtain st where "firstFailing (stages rt c) topic payload pkt = Some st"
    using not_eligible_dropped by blast
  then show ?thesis by (simp add: onMessage_dropped)
qed

lemma handle_offline_shown:
  assumes "\<not> isConnect ev" and "offlineShown s \<or> halted s \<noteq> None"
  shows "offlineNotices (handle rt c ev s) = offlineNotices s \<and>
         (offlineShown (handle rt c ev s) \<or> halted (handle rt c ev s) \<noteq> None)"
proof (cases "halted s = None")
  case False
  then show ?thesis by (simp add: handle_halted)
next
  case True
  then have sh: "offlineShown s" using assms(2) by simp
  show ?thesis
  proof (cases ev)
    case (EvMessage topic payload pkt)
    then show ?thesis
      using True sh onMessage_notices [of rt c topic payload pkt s]
      by (simp add: handle_def offlineNotices_def)
  next
    case (EvSubscribeCallback r)
    then show ?thesis using True sh
      by (cases r) (simp_all add: handle_def onSubscribed_eq offlineNotices_def)
  qed (use assms True sh in \<open>simp_all add: handle_def handler_defs Let_def offlineNotices_def\<close>)
qed

lemma run_offline_shown:
  assumes "\<forall>ev \<in> set evs. \<not> isConnect ev" and "offlineShown s \<or> halted s \<noteq> None"
  shows "offlineNotices (run rt c evs s) = offlineNotices s"
  using assms
proof (induction evs arbitrary: s)
  case Nil
  then show ?case by simp
next
  case (Cons ev evs)
  have "\<not> isConnect ev" using Cons.prems(1) by simp
  from handle_offline_shown [OF this Cons.prems(2), of rt c]
  show ?case using Cons.IH [of "handle rt c ev s"] Cons.prems(1) by simp
qed

lemma handle_first_offline:
  assumes "halted s = None" and "\<not> offlineShown s"
  shows "handle rt c EvOffline s =
           s\<lparr>out := out s @ dbgl (c_opts c) DbgOffline
                  @ [(Stderr, if everConnected s then LostConnection (brokerUrl c)
                              else CannotReach (brokerUrl c))],
              offlineShown := True\<rparr>"
  using assms by (simp add: handle_def onOffline_def Let_def dbg_eq emit_eq)

lemma handle_connect:
  assumes "halted s = None"
  shows "handle rt c EvConnect s =
           s\<lparr>out := out s @ dbgl (c_opts c) DbgConnectEvent
                  @ [(Stderr, if everConnected s then Reconnected (brokerUrl c)
                              else Connected (brokerUrl c))]
                  @ dbgl (c_opts c) (DbgSubscribing (c_topics c)),
              everConnected := True, offlineShown := False,
              subscribeCalls := subscribeCalls s + 1\<rparr>"
  using assms by (simp add: handle_def onConnect_def Let_def dbg_eq emit_eq)

text \<open>
  Claim C5. Let the process be running with \<open>offlineShown\<close> false, and let an offline
  event be followed by any events other than a connect event (further offline events,
  reconnect attempts, errors, ...). Then exactly one offline notice has been added to
  the output, on stderr: \<open>Lost connection\<close> if the controller had connected before,
  \<open>Cannot reach\<close> otherwise. The first offline event sets \<open>offlineShown\<close>, and a connect
  event resets it.
\<close>

theorem one_offline_notice_per_interval:
  assumes "halted s = None" and "\<not> offlineShown s"
    and "\<forall>ev \<in> set rest. \<not> isConnect ev"
  shows "offlineNotices (run rt c (EvOffline # rest) s) =
           offlineNotices s
             @ [(Stderr, if everConnected s then LostConnection (brokerUrl c)
                         else CannotReach (brokerUrl c))] \<and>
         offlineShown (handle rt c EvOffline s) \<and>
         (halted t = None \<longrightarrow> \<not> offlineShown (handle rt c EvConnect t))"
proof -
  let ?s1 = "handle rt c EvOffline s"
  have s1: "offlineShown ?s1"
    and n1: "offlineNotices ?s1 =
               offlineNotices s
                 @ [(Stderr, if everConnected s then LostConnection (brokerUrl c)
                             else CannotReach (brokerUrl c))]"
    using assms(1,2) by (simp_all add: handle_first_offline offlineNotices_def)
  have "offlineNotices (run rt c rest ?s1) = offlineNotices ?s1"
    using run_offline_shown [OF assms(3), of ?s1 rt c] s1 by simp
  then have a: "offlineNotices (run rt c (EvOffline # rest) s) =
           offlineNotices s
             @ [(Stderr, if everConnected s then LostConnection (brokerUrl c)
                         else CannotReach (brokerUrl c))]"
    using n1 by simp
  have b: "\<not> offlineShown (handle rt c EvConnect t)" if "halted t = None"
    using that by (simp add: handle_connect)
  show ?thesis using a s1 b by blast
qed

text \<open>
Three offline events and two reconnect attempts before the first connection.
\<close>

theorem one_offline_notice_per_interval_witness:
  "offlineNotices
     (run demoRuntime (demoCtx demoOpts) (EvOffline # [EvReconnect, EvOffline, EvReconnect, EvOffline])
        demoStart) =
     [(Stderr, CannotReach (Url ''mqtt'' ''localhost'' (PortNumber 1883)))]"
proof -
  have h1: "halted demoStart = None" and h2: "\<not> offlineShown demoStart"
    by (simp_all add: demoStart_def boot_def)
  have h3: "\<forall>ev \<in> set [EvReconnect, EvOffline, EvReconnect, EvOffline]. \<not> isConnect ev"
    by simp
  have n0: "offlineNotices demoStart = []"
    by (simp add: offlineNotices_def demoStart_def)
  have e: "everConnected demoStart = False"
    by (simp add: demoStart_def boot_def)
  have u: "brokerUrl (demoCtx demoOpts) = Url ''mqtt'' ''localhost'' (PortNumber 1883)"
    by (simp add: demoCtx_def)
  from one_offline_notice_per_interval [OF h1 h2 h3, of demoRuntime "demoCtx demoOpts" demoStart]
  show ?thesis by (simp only: n0 e u append_Nil if_False)
qed

section \<open>Connected and reconnected\<close>

lemma handle_connect_notices:
  assumes "\<not> isConnect ev"
  shows "connectNotices (handle rt c ev s) = connectNotices s \<and>
         everConnected (handle rt c ev s) = everConnected s"
proof (cases "halted s = None")
  case False
  then show ?thesis by (simp add: handle_halted)
next
  case True
  show ?thesis
  proof (cases ev)
    case (EvMessage topic payload pkt)
    then show ?thesis
      using True onMessage_notices [of rt c topic payload pkt s]
      by (simp add: handle_def connectNotices_def)
  next
    case (EvSubscribeCallback r)
    then show ?thesis using True
      by (cases r) (simp_all add: handle_def onSubscribed_eq connectNotices_def)
  qed (use assms True in \<open>simp_all add: handle_def handler_defs Let_def connectNotices_def\<close>)
qed

lemma handle_connectShape:
  assumes "connectShape c s"
  shows "connectShape c (handle rt c ev s)"
proof (cases "isConnect ev \<and> halted s = None")
  case False
  then have "handle rt c ev s = s \<or> \<not> isConnect ev"
    using handle_halted by blast
  then show ?thesis
    using assms handle_connect_notices [of ev rt c s] by (auto simp add: connectShape_def)
next
  case True
  then have ev: "ev = EvConnect" by (cases ev) simp_all
  show ?thesis
  proof (cases "everConnected s")
    case False
    then have "connectNotices s = []" using assms by (simp add: connectShape_def)
    then show ?thesis
      using True False by (simp add: ev handle_connect connectShape_def connectNotices_def)
  next
    case ec: True
    let ?k = "length (connectNotices s) - 1"
    have n: "connectNotices s =
               (Stderr, Connected (brokerUrl c)) # replicate ?k (Stderr, Reconnected (brokerUrl c))"
      using assms ec by (simp add: connectShape_def)
    have "connectNotices (handle rt c ev s) = connectNotices s @ [(Stderr, Reconnected (brokerUrl c))]"
      using True ec by (simp add: ev handle_connect connectNotices_def)
    also have "\<dots> = (Stderr, Connected (brokerUrl c))
                       # replicate (Suc ?k) (Stderr, Reconnected (brokerUrl c))"
      by (subst n) (simp add: replicate_append_same)
    finally have m: "connectNotices (handle rt c ev s) =
       (Stderr, Connected (brokerUrl c)) # replicate (Suc ?k) (Stderr, Reconnected (brokerUrl c))" .
    have l: "length (connectNotices (handle rt c ev s)) - 1 = Suc ?k"
      by (simp add: m)
    have e: "everConnected (handle rt c ev s)"
      using True by (simp add: ev handle_connect)
    show ?thesis
      unfolding connectShape_def l using m e by simp
  qed
qed

lemma run_connectShape: "connectShape c s \<Longrightarrow> connectShape c (run rt c evs s)"
  by (induction evs arbitrary: s) (simp_all add: handle_connectShape)

text \<open>
  Claim C6. A connect event handled by a running process adds exactly one line that is
  not a debug line, on stderr: \<open>Reconnected\<close> if \<open>everConnected\<close> was true, \<open>Connected\<close>
  otherwise; and \<open>everConnected\<close> is true afterwards. In every execution after setup the
  connection notices written are: none before the first handshake, afterwards one
  \<open>Connected\<close> followed by \<open>Reconnected\<close> only. So the first handshake never says
  \<open>Reconnected\<close>, and every later one says it once.
\<close>

theorem connected_then_reconnected:
  "(halted s = None \<longrightarrow>
      statusLines (handle rt c EvConnect s) =
        statusLines s @ [(Stderr, if everConnected s then Reconnected (brokerUrl c)
                                   else Connected (brokerUrl c))] \<and>
      everConnected (handle rt c EvConnect s)) \<and>
   (connect rt topics op = (Some c, s0) \<longrightarrow>
      \<not> everConnected s0 \<and>
      connectNotices (run rt c evs s0) =
        (if everConnected (run rt c evs s0)
         then (Stderr, Connected (brokerUrl c))
                # replicate (length (connectNotices (run rt c evs s0)) - 1)
                    (Stderr, Reconnected (brokerUrl c))
         else []))"
proof -
  have a: "statusLines (handle rt c EvConnect s) =
        statusLines s @ [(Stderr, if everConnected s then Reconnected (brokerUrl c)
                                   else Connected (brokerUrl c))] \<and>
      everConnected (handle rt c EvConnect s)" if "halted s = None"
    using that by (simp add: handle_connect statusLines_def)
  have b: "\<not> everConnected s0 \<and>
      connectNotices (run rt c evs s0) =
        (if everConnected (run rt c evs s0)
         then (Stderr, Connected (brokerUrl c))
                # replicate (length (connectNotices (run rt c evs s0)) - 1)
                    (Stderr, Reconnected (brokerUrl c))
         else [])" if "connect rt topics op = (Some c, s0)"
  proof -
    note st = connect_started [OF that]
    have "connectShape c s0"
      using st(5,11) by (simp add: connectShape_def connectNotices_def)
    then have "connectShape c (run rt c evs s0)"
      by (rule run_connectShape)
    then show ?thesis using st(5) by (simp add: connectShape_def)
  qed
  show ?thesis using a b by blast
qed

text \<open>
A first handshake, a connection loss and a second handshake after setup.
\<close>

theorem connected_then_reconnected_witness:
  "statusLines (handle demoRuntime (demoCtx demoOpts) EvConnect demoStart) =
     statusLines demoStart @ [(Stderr, Connected (brokerUrl (demoCtx demoOpts)))] \<and>
   connectNotices
     (run demoRuntime (demoCtx (demoOpts\<lparr>o_count := None\<rparr>)) [EvConnect, EvOffline, EvConnect] demoStart) =
     [(Stderr, Connected (Url ''mqtt'' ''localhost'' (PortNumber 1883))),
      (Stderr, Reconnected (Url ''mqtt'' ''localhost'' (PortNumber 1883)))]"
proof -
  have h: "halted demoStart = None" and e: "everConnected demoStart = False"
    by (simp_all add: demoStart_def boot_def)
  have h1: "connect demoRuntime [''#''] (demoOpts\<lparr>o_count := None\<rparr>) =
              (Some (demoCtx (demoOpts\<lparr>o_count := None\<rparr>)), demoStart)"
    by (rule demo_connect)
  from connected_then_reconnected [of demoStart demoRuntime "demoCtx demoOpts"] h
  have a: "statusLines (handle demoRuntime (demoCtx demoOpts) EvConnect demoStart) =
     statusLines demoStart @ [(Stderr, Connected (brokerUrl (demoCtx demoOpts)))]"
    by (simp only: e if_False)
  let ?r = "run demoRuntime (demoCtx (demoOpts\<lparr>o_count := None\<rparr>))
              [EvConnect, EvOffline, EvConnect] demoStart"
  have ev: "everConnected ?r" and len: "length (connectNotices ?r) - 1 = 1"
    and u: "brokerUrl (demoCtx (demoOpts\<lparr>o_count := None\<rparr>)) = Url ''mqtt'' ''localhost'' (PortNumber 1883)"
    by (simp_all add: handle_def onConnect_def onOffline_def demoCtx_def demoOpts_def demoStart_def
        boot_def dbg_def emit_def connectNotices_def Let_def)
  from connected_then_reconnected [of demoStart demoRuntime "demoCtx (demoOpts\<lparr>o_count := None\<rparr>)"
      "[''#'']" "demoOpts\<lparr>o_count := None\<rparr>" demoStart "[EvConnect, EvOffline, EvConnect]"] h1
  have "connectNotices ?r =
        (if everConnected ?r
         then (Stderr, Connected (brokerUrl (demoCtx (demoOpts\<lparr>o_count := None\<rparr>))))
                # replicate (length (connectNotices ?r) - 1)
                    (Stderr, Reconnected (brokerUrl (demoCtx (demoOpts\<lparr>o_count := None\<rparr>))))
         else [])"
    by blast
  then have b: "connectNotices ?r =
     [(Stderr, Connected (Url ''mqtt'' ''localhost'' (PortNumber 1883))),
      (Stderr, Reconnected (Url ''mqtt'' ''localhost'' (PortNumber 1883)))]"
    using ev by (simp only: len u if_True) simp
  show ?thesis using a b by blast
qed

section \<open>Subscribe failure\<close>

text \<open>
  Claim C7. When the callback of \<open>client.subscribe\<close> reports an error to a running
  process, exactly one line, the subscribe error, is written, on stderr; the process
  exits with code 1; no message is forwarded by it; \<open>client.subscribe\<close> is not called
  again and no later event has any effect. In particular, in an execution that starts
  with the handshake and a failing subscribe callback, nothing is ever written to stdout,
  the exit code is 1 and the subscribe request was issued once.
\<close>

theorem subscribe_failure_fatal:
  "(halted s = None \<and> subscribeAcks s < subscribeCalls s \<longrightarrow>
      out (handle rt c (EvSubscribeCallback (Inl m)) s) = out s @ [(Stderr, SubscribeError m)] \<and>
      halted (handle rt c (EvSubscribeCallback (Inl m)) s) = Some (Exit 1) \<and>
      messageCount (handle rt c (EvSubscribeCallback (Inl m)) s) = messageCount s \<and>
      subscribeCalls (handle rt c (EvSubscribeCallback (Inl m)) s) = subscribeCalls s \<and>
      run rt c evs (handle rt c (EvSubscribeCallback (Inl m)) s) =
        handle rt c (EvSubscribeCallback (Inl m)) s) \<and>
   (connect rt topics op = (Some c, s0) \<longrightarrow>
      halted (run rt c (EvConnect # EvSubscribeCallback (Inl m) # evs) s0) = Some (Exit 1) \<and>
      written Stdout (run rt c (EvConnect # EvSubscribeCallback (Inl m) # evs) s0) = [] \<and>
      subscribeCalls (run rt c (EvConnect # EvSubscribeCallback (Inl m) # evs) s0) = 1)"
proof -
  have step: "handle rt c (EvSubscribeCallback (Inl m)) t =
                t\<lparr>subscribeAcks := subscribeAcks t + 1,
                   out := out t @ [(Stderr, SubscribeError m)], halted := Some (Exit 1)\<rparr>"
    if "halted t = None" and "subscribeAcks t < subscribeCalls t" for t
    using that by (simp add: handle_def onSubscribed_eq)
  have a: "out (handle rt c (EvSubscribeCallback (Inl m)) s) = out s @ [(Stderr, SubscribeError m)] \<and>
      halted (handle rt c (EvSubscribeCallback (Inl m)) s) = Some (Exit 1) \<and>
      messageCount (handle rt c (EvSubscribeCallback (Inl m)) s) = messageCount s \<and>
      subscribeCalls (handle rt c (EvSubscribeCallback (Inl m)) s) = subscribeCalls s \<and>
      run rt c evs (handle rt c (EvSubscribeCallback (Inl m)) s) =
        handle rt c (EvSubscribeCallback (Inl m)) s"
    if h: "halted s = None" "subscribeAcks s < subscribeCalls s"
  proof -
    have "run rt c evs (handle rt c (EvSubscribeCallback (Inl m)) s) =
            handle rt c (EvSubscribeCallback (Inl m)) s"
      by (rule run_halted) (simp add: step [OF h])
    then show ?thesis by (simp add: step [OF h])
  qed
  have b: "halted (run rt c (EvConnect # EvSubscribeCallback (Inl m) # evs) s0) = Some (Exit 1) \<and>
      written Stdout (run rt c (EvConnect # EvSubscribeCallback (Inl m) # evs) s0) = [] \<and>
      subscribeCalls (run rt c (EvConnect # EvSubscribeCallback (Inl m) # evs) s0) = 1"
    if "connect rt topics op = (Some c, s0)"
  proof -
    note st = connect_started [OF that]
    let ?s1 = "handle rt c EvConnect s0"
    have s1: "halted ?s1 = None" "subscribeAcks ?s1 < subscribeCalls ?s1"
      "written Stdout ?s1 = []" "subscribeCalls ?s1 = 1"
      using st(1,7,12,13) by (simp_all add: handle_connect written_def)
    let ?s2 = "handle rt c (EvSubscribeCallback (Inl m)) ?s1"
    have r: "run rt c (EvConnect # EvSubscribeCallback (Inl m) # evs) s0 = ?s2"
      using run_halted [of ?s2 rt c evs] by (simp add: step [OF s1(1,2)])
    show ?thesis
      unfolding r using s1(3,4) by (simp add: step [OF s1(1,2)] written_def)
  qed
  show ?thesis using a b by blast
qed

text \<open>
  A failing subscribe callback after the first handshake, followed by a message that is
  no longer handled.
\<close>

theorem subscribe_failure_fatal_witness:
  "halted
     (run demoRuntime (demoCtx (demoOpts\<lparr>o_count := None\<rparr>))
        (EvConnect # EvSubscribeCallback (Inl ''Not authorized'') # [EvMessage ''a'' ''1'' plain])
        demoStart) = Some (Exit 1) \<and>
   written Stdout
     (run demoRuntime (demoCtx (demoOpts\<lparr>o_count := None\<rparr>))
        (EvConnect # EvSubscribeCallback (Inl ''Not authorized'') # [EvMessage ''a'' ''1'' plain])
        demoStart) = [] \<and>
   out (handle demoRuntime (demoCtx demoOpts) (EvSubscribeCallback (Inl ''Not authorized''))
          (demoStart\<lparr>subscribeCalls := 1\<rparr>)) =
     out (demoStart\<lparr>subscribeCalls := 1\<rparr>) @ [(Stderr, SubscribeError ''Not authorized'')]"
proof -
  have h1: "connect demoRuntime [''#''] (demoOpts\<lparr>o_count := None\<rparr>) =
              (Some (demoCtx (demoOpts\<lparr>o_count := None\<rparr>)), demoStart)"
    by (rule demo_connect)
  have h2: "halted (demoStart\<lparr>subscribeCalls := 1\<rparr>) = None \<and>
            subscribeAcks (demoStart\<lparr>subscribeCalls := 1\<rparr>) < subscribeCalls (demoStart\<lparr>subscribeCalls := 1\<rparr>)"
    by (simp add: demoStart_def boot_def)
  from subscribe_failure_fatal [of "demoStart\<lparr>subscribeCalls := 1\<rparr>" demoRuntime "demoCtx demoOpts"
      "''Not authorized''" "[]"] h2
  have a: "out (handle demoRuntime (demoCtx demoOpts) (EvSubscribeCallback (Inl ''Not authorized''))
          (demoStart\<lparr>subscribeCalls := 1\<rparr>)) =
     out (demoStart\<lparr>subscribeCalls := 1\<rparr>) @ [(Stderr, SubscribeError ''Not authorized'')]"
    by blast
  from subscribe_failure_fatal [of demoStart demoRuntime "demoCtx (demoOpts\<lparr>o_count := None\<rparr>)"
      "''Not authorized''" "[EvMessage ''a'' ''1'' plain]" "[''#'']" "demoOpts\<lparr>o_count := None\<rparr>"
      demoStart] h1
  have b: "halted
     (run demoRuntime (demoCtx (demoOpts\<lparr>o_count := None\<rparr>))
        (EvConnect # EvSubscribeCallback (Inl ''Not authorized'') # [EvMessage ''a'' ''1'' plain])
        demoStart) = Some (Exit 1) \<and>
   written Stdout
     (run demoRuntime (demoCtx (demoOpts\<lparr>o_count := None\<rparr>))
        (EvConnect # EvSubscribeCallback (Inl ''Not authorized'') # [EvMessage ''a'' ''1'' plain])
        demoStart) = []"
    by blast
  show ?thesis using a b by blast
qed

section \<open>Channel separation\<close>

lemma separated_Cons [simp]:
  "separated (w # ws) = (((fst w = Stdout) = isMessageOut (snd w)) \<and> separated ws)"
  by (simp add: separated_def)

lemma handle_separated:
  assumes "separated (out s)"
  shows "separated (out (handle rt c ev s))"
proof (cases "halted s = None")
  case False
  then show ?thesis using assms by (simp add: handle_halted)
next
  case True
  show ?thesis
  proof (cases ev)
    case (EvMessage topic payload pkt)
    show ?thesis
    proof (cases "eligible rt c topic payload pkt")
      case el: True
      show ?thesis using assms True EvMessage
        by (simp add: handle_def onMessage_forwarded [OF el])
    next
      case False
      then obtain st where "firstFailing (stages rt c) topic payload pkt = Some st"
        using not_eligible_dropped by blast
      then show ?thesis using assms True EvMessage
        by (simp add: handle_def onMessage_dropped)
    qed
  next
    case (EvSubscribeCallback r)
    then show ?thesis using assms True
      by (cases r) (simp_all add: handle_def onSubscribed_eq)
  qed (use assms True in \<open>simp_all add: handle_def handler_defs Let_def\<close>)
qed

lemma run_separated: "separated (out s) \<Longrightarrow> separated (out (run rt c evs s))"
  by (induction evs arbitrary: s) (simp_all add: handle_separated)

lemma connect_separated: "separated (out (snd (connect rt topics op)))"
proof (cases "buildConnectOptions rt op")
  case (Inl e)
  then show ?thesis by (simp add: connect_read_error)
next
  case (Inr co)
  show ?thesis
  proof (cases "regexError rt (o_filter op) ''--filter''")
    case (Some l)
    then show ?thesis
      using regexError_status [OF Some] by (simp add: connect_topic_error [OF Inr Some])
  next
    case None
    show ?thesis
    proof (cases "regexError rt (o_payloadFilter op) ''--payload-filter''")
      case (Some l)
      then show ?thesis
        using regexError_status [OF Some] by (simp add: connect_payload_error [OF Inr None Some])
    next
      case n: None
      show ?thesis
        using connect_no_error [OF Inr None n, of topics] by simp
    qed
  qed
qed

text \<open>
  Claim C9. In the state after setup, whether setup failed or not, and in the state
  after any execution of the handlers, every write that went to stdout is the rendering
  of a forwarded message and every write of a forwarded message went to stdout: status,
  diagnostic and error lines are on stderr only, message lines on stdout only. (A debug
  line that mentions the topic of a message is a diagnostic line.)
\<close>

theorem channel_separation:
  "separated (out (snd (connect rt topics op))) \<and>
   (connect rt topics op = (Some c, s0) \<longrightarrow> separated (out (run rt c evs s0)))"
proof -
  have "separated (out (run rt c evs s0))" if "connect rt topics op = (Some c, s0)"
    using connect_started(8) [OF that] by (rule run_separated)
  then show ?thesis using connect_separated by blast
qed

text \<open>
  An execution with a handshake, a message, a connection loss and a signal; its output
  trace is shown in full.
\<close>

theorem channel_separation_witness:
  "separated
     (out (run demoRuntime (demoCtx (demoOpts\<lparr>o_count := None\<rparr>))
        [EvConnect, EvMessage ''a'' ''1'' plain, EvOffline, EvSignal SIGINT] demoStart)) \<and>
   out (run demoRuntime (demoCtx (demoOpts\<lparr>o_count := None\<rparr>))
        [EvConnect, EvMessage ''a'' ''1'' plain, EvOffline, EvSignal SIGINT] demoStart) =
     [(Stderr, Connecting (Url ''mqtt'' ''localhost'' (PortNumber 1883)) None),
      (Stderr, Connected (Url ''mqtt'' ''localhost'' (PortNumber 1883))),
      (Stdout, MessageOut ''a 1''),
      (Stderr, LostConnection (Url ''mqtt'' ''localhost'' (PortNumber 1883))),
      (Stderr, Disconnecting)]"
proof -
  have h1: "connect demoRuntime [''#''] (demoOpts\<lparr>o_count := None\<rparr>) =
              (Some (demoCtx (demoOpts\<lparr>o_count := None\<rparr>)), demoStart)"
    by (rule demo_connect)
  from channel_separation [of demoRuntime "[''#'']" "demoOpts\<lparr>o_count := None\<rparr>"
      "demoCtx (demoOpts\<lparr>o_count := None\<rparr>)" demoStart] h1
  have a: "separated
     (out (run demoRuntime (demoCtx (demoOpts\<lparr>o_count := None\<rparr>))
        [EvConnect, EvMessage ''a'' ''1'' plain, EvOffline, EvSignal SIGINT] demoStart))"
    by blast
  have b: "out (run demoRuntime (demoCtx (demoOpts\<lparr>o_count := None\<rparr>))
        [EvConnect, EvMessage ''a'' ''1'' plain, EvOffline, EvSignal SIGINT] demoStart) =
     [(Stderr, Connecting (Url ''mqtt'' ''localhost'' (PortNumber 1883)) None),
      (Stderr, Connected (Url ''mqtt'' ''localhost'' (PortNumber 1883))),
      (Stdout, MessageOut ''a 1''),
      (Stderr, LostConnection (Url ''mqtt'' ''localhost'' (PortNumber 1883))),
      (Stderr, Disconnecting)]"
    by (simp add: handle_def onConnect_def onOffline_def onMessage_def shutdown_def clientEnd_def
        demoCtx_def demoOpts_def demoRuntime_def demoStart_def plain_def maxMessagesOf_def
        boot_def dbg_def emit_def Let_def)
  show ?thesis using a b by blast
qed

section \<open>Setup errors\<close>

lemma materialError_Some:
  "materialError rt p = Some e \<Longrightarrow> readMaterial rt p = Inl e \<and> truthy p"
  by (auto simp add: materialError_def readMaterial_def truthy_def
      split: option.splits if_splits sum.splits)

lemma materialError_None:
  "materialError rt p = None \<Longrightarrow> \<exists>b. readMaterial rt p = Inr b"
  by (auto simp add: materialError_def readMaterial_def split: option.splits if_splits sum.splits)

lemma build_readError_Some:
  assumes "readError rt op = Some e"
  shows "buildConnectOptions rt op = Inl e"
proof (cases "materialError rt (o_ca op)")
  case (Some a)
  then have "a = e" using assms by (simp add: readError_def)
  then show ?thesis
    using materialError_Some [OF Some] by (simp add: buildConnectOptions_def usesTls_def Let_def)
next
  case ca: None
  then obtain a where a: "readMaterial rt (o_ca op) = Inr a"
    using materialError_None by blast
  show ?thesis
  proof (cases "materialError rt (o_cert op)")
    case (Some b)
    then have "b = e" using assms ca by (simp add: readError_def)
    then show ?thesis
      using materialError_Some [OF Some] a
      by (simp add: buildConnectOptions_def usesTls_def Let_def)
  next
    case cert: None
    then obtain b where b: "readMaterial rt (o_cert op) = Inr b"
      using materialError_None by blast
    have "materialError rt (o_key op) = Some e"
      using assms ca cert by (simp add: readError_def)
    then show ?thesis
      using materialError_Some [of rt "o_key op" e] a b
      by (simp add: buildConnectOptions_def usesTls_def Let_def)
  qed
qed

lemma build_readError_None:
  assumes "readError rt op = None"
  shows "\<exists>co. buildConnectOptions rt op = Inr co"
proof -
  have "materialError rt (o_ca op) = None" "materialError rt (o_cert op) = None"
    "materialError rt (o_key op) = None"
    using assms by (auto simp add: readError_def split: option.splits)
  then obtain a b k where "readMaterial rt (o_ca op) = Inr a" "readMaterial rt (o_cert op) = Inr b"
    "readMaterial rt (o_key op) = Inr k"
    using materialError_None by metis
  then show ?thesis
    by (simp add: buildConnectOptions_def Let_def)
qed

text \<open>
  The outcomes of setup. The TLS material is read first, then the topic pattern is
  compiled, then the payload pattern, and \<open>mqttConnect\<close> is called only if all three are
  fine. A pattern that does not compile gives one error line on stderr (the only line
  that is not a debug line) and \<open>process.exit(1)\<close>. A file that cannot be read makes
  \<open>connect\<close> reject with the read error, which nothing catches.
\<close>

lemma setup_outcomes:
  "(case readError rt op of
      Some e \<Rightarrow>
        fst (connect rt topics op) = None \<and>
        halted (snd (connect rt topics op)) = Some (Uncaught e) \<and>
        statusLines (snd (connect rt topics op)) = [] \<and>
        mqttConnects (snd (connect rt topics op)) = 0
    | None \<Rightarrow>
       (case regexError rt (o_filter op) ''--filter'' of
          Some l \<Rightarrow>
            fst (connect rt topics op) = None \<and>
            halted (snd (connect rt topics op)) = Some (Exit 1) \<and>
            statusLines (snd (connect rt topics op)) = [(Stderr, l)] \<and>
            mqttConnects (snd (connect rt topics op)) = 0
        | None \<Rightarrow>
           (case regexError rt (o_payloadFilter op) ''--payload-filter'' of
              Some l \<Rightarrow>
                fst (connect rt topics op) = None \<and>
                halted (snd (connect rt topics op)) = Some (Exit 1) \<and>
                statusLines (snd (connect rt topics op)) = [(Stderr, l)] \<and>
                mqttConnects (snd (connect rt topics op)) = 0
            | None \<Rightarrow>
                fst (connect rt topics op) \<noteq> None \<and>
                halted (snd (connect rt topics op)) = None \<and>
                mqttConnects (snd (connect rt topics op)) = 1)))"
proof (cases "readError rt op")
  case (Some e)
  then show ?thesis
    using connect_read_error [OF build_readError_Some [OF Some], of topics]
    by (simp add: statusLines_def)
next
  case None
  then obtain co where co: "buildConnectOptions rt op = Inr co"
    using build_readError_None by blast
  show ?thesis
  proof (cases "regexError rt (o_filter op) ''--filter''")
    case (Some l)
    then show ?thesis
      using None regexError_status [OF Some] connect_topic_error [OF co Some, of topics]
      by (simp add: statusLines_def)
  next
    case t: None
    show ?thesis
    proof (cases "regexError rt (o_payloadFilter op) ''--payload-filter''")
      case (Some l)
      then show ?thesis
        using None t regexError_status [OF Some] connect_payload_error [OF co t Some, of topics]
        by (simp add: statusLines_def)
    next
      case p: None
      show ?thesis
        using None t p connect_no_error [OF co t p, of topics] by simp
    qed
  qed
qed

text \<open>
  Claim C8 says that every setup error, an unreadable file of TLS material as much as a
  pattern that does not compile, is reported as an error line on the status channel,
  ends the process with exit code 1 before any connect attempt, and that no exception
  escapes uncaught. The code does this for a pattern: \<open>compileFilter\<close> catches the error,
  writes the line and calls \<open>process.exit(1)\<close>. For a CA file that cannot be read the
  controller writes nothing and calls no \<open>process.exit\<close>: \<open>connect\<close> rejects and the
  rejection is uncaught. No connect attempt is made in either case, and the exit code
  is 1 in both, in the second case only because Node ends the process.
\<close>

theorem unreadable_tls_uncaught:
  "connect demoRuntime [''#''] (demoOpts\<lparr>o_ca := Some ''/missing.pem''\<rparr>) =
     (None, boot\<lparr>halted := Some (Uncaught (ReadFileError ''/missing.pem'' ''ENOENT''))\<rparr>) \<and>
   out boot = [] \<and> mqttConnects boot = 0 \<and>
   exitCode (Uncaught (ReadFileError ''/missing.pem'' ''ENOENT'')) = 1 \<and>
   connect demoRuntime [''#''] (demoOpts\<lparr>o_filter := Some ''(''\<rparr>) =
     (None, boot\<lparr>out := [(Stderr, InvalidRegex ''--filter'' ''('' ''Unterminated group'')],
                  halted := Some (Exit 1)\<rparr>)"
  by (simp add: connect_def buildConnectOptions_def readMaterial_def usesTls_def truthy_def
      orElse_def compileFilter_def emit_def exit_def demoRuntime_def demoOpts_def dbg_def
      boot_def Let_def)

end
